theory Spec2Isabelle
  imports Main
begin

section \<open>Values, errors and effects of backend/server.js\<close>

text \<open>
  The server is a set of Express handlers around three check routines. Everything a
  routine does beyond returning a value is written out: a thrown exception is the
  \<open>Inl\<close> of a sum, and console output, audit records and outbound calls are collected,
  in program order, in a list of effects returned beside the value.

  JSON values, as they appear in audit data and response bodies.
\<close>

datatype json =
    JNull
  | JBool bool
  | JNum int
  | JStr string
  | JArr "json list"
  | JObj "(string \<times> json) list"

text \<open>
  A thrown or returned JavaScript error: \<open>err_message\<close> is \<open>error.message\<close>, \<open>err_code\<close>
  is \<open>error.code\<close>, \<open>err_json\<close> is what \<open>JSON.stringify(error)\<close> gives, \<open>err_string\<close> what
  \<open>String(error)\<close> gives and \<open>err_stack\<close> is \<open>error.stack\<close>. \<open>err_status\<close> is
  \<open>error.status\<close>, the HTTP status that the client library records on the error of a call
  that the project answered with a non-success status; the server never reads it.
\<close>

record js_error =
  err_message :: string
  err_code :: "string option"
  err_json :: string
  err_string :: string
  err_stack :: "string option"
  err_status :: "nat option"

text \<open>\<open>new Error(msg)\<close>: no code, no status, an empty JSON rendering, the usual string
  form.\<close>

definition new_Error :: "string \<Rightarrow> js_error" where
  "new_Error msg =
     \<lparr>err_message = msg, err_code = None, err_json = ''{}'',
      err_string = ''Error: '' @ msg, err_stack = None, err_status = None\<rparr>"

datatype effect =
    LogEvidence string string json
  | ConsoleLog "json list"
  | CreateClient string string
  | ListUsers
  | GetUserById string
  | ResetPasswordForEmail string string
  | NewPool "string option"
  | PoolQuery string "string list"
  | PoolEnd
  | Fetch string string "(string \<times> string) list" "string option"
  | ChatCompletion string

text \<open>
  \<open>logEvidence(level, message, data = {})\<close> prints one entry on the console and appends it
  to evidence.log; the time stamp is left out. A failure to append is caught inside and
  only printed, so the function never throws.
\<close>

definition logEvidence :: "string \<Rightarrow> string \<Rightarrow> json \<Rightarrow> effect list" where
  "logEvidence level msg data = [LogEvidence level msg data]"

text \<open>A request field is absent (\<open>undefined\<close>) or a string; \<open>!x\<close> holds for both the
  absent field and the empty string.\<close>

definition falsy :: "string option \<Rightarrow> bool" where
  "falsy x = (case x of None \<Rightarrow> True | Some s \<Rightarrow> s = [])"

definition opt_json :: "string option \<Rightarrow> json" where
  "opt_json x = (case x of None \<Rightarrow> JNull | Some s \<Rightarrow> JStr s)"

section \<open>The MFA check\<close>

record factor =
  factor_status :: string

record user_ident =
  ident :: "string option"
  email :: "string option"
  phone :: "string option"

record user = user_ident +
  factors :: "factor list option"

text \<open>An entry of the result: \<open>mfa_enabled\<close> is the value of
  \<open>user.factors && user.factors.some(...)\<close>, which is the absent \<open>factors\<close> itself
  (\<open>None\<close>) when the user has no factor array.\<close>

record mfa_user = user_ident +
  mfa_enabled :: "bool option"

record list_users_response =
  users :: "user list option"
  usersError :: "js_error option"

record check_head =
  checkName :: string
  overallStatus :: string
  error :: "string option"
  message :: "string option"

record mfa_results = check_head +
  mfa_users :: "mfa_user list"

definition isMfaEnabled :: "user \<Rightarrow> bool option" where
  "isMfaEnabled u =
     (case factors u of
        None \<Rightarrow> None
      | Some fs \<Rightarrow> Some (list_ex (\<lambda>f. factor_status f = ''verified'') fs))"

definition mfa_entry :: "user \<Rightarrow> mfa_user" where
  "mfa_entry u =
     \<lparr>ident = ident u, email = email u, phone = phone u, mfa_enabled = isMfaEnabled u\<rparr>"

definition mfaResults_init :: mfa_results where
  "mfaResults_init =
     \<lparr>checkName = ''Multi-Factor Authentication (MFA)'', overallStatus = ''FAILING'',
      error = None, message = None, mfa_users = []\<rparr>"

text \<open>The \<open>catch\<close> block of \<open>runMFACheck\<close>: \<open>error.message || JSON.stringify(error)\<close>.\<close>

definition mfa_catch :: "string \<Rightarrow> mfa_results \<Rightarrow> js_error \<Rightarrow> mfa_results \<times> effect list" where
  "mfa_catch displayUrl r e =
     (let m = (if err_message e \<noteq> [] then err_message e else err_json e)
      in (r\<lparr>error := Some m, overallStatus := ''ERROR''\<rparr>,
          logEvidence ''error'' ''MFA check processing failed.''
            (JObj [(''project'', JStr displayUrl), (''error'', JStr m)])))"

text \<open>The body of the \<open>try\<close> block after a listing without error.\<close>

definition mfa_aggregate :: "user list option \<Rightarrow> mfa_results" where
  "mfa_aggregate us =
     (case us of
        None \<Rightarrow> mfaResults_init\<lparr>overallStatus := ''N/A'',
                  message := Some ''No users found in the project.''\<rparr>
      | Some l \<Rightarrow>
          if length l > 0 then
            mfaResults_init\<lparr>mfa_users := map mfa_entry l,
              overallStatus :=
                (if list_all (\<lambda>u. isMfaEnabled u = Some True) l then ''PASSING''
                 else ''FAILING'')\<rparr>
          else mfaResults_init\<lparr>overallStatus := ''N/A'',
                 message := Some ''No users found in the project.''\<rparr>)"

definition users_count :: "user list option \<Rightarrow> int" where
  "users_count us = (case us of None \<Rightarrow> 0 | Some l \<Rightarrow> int (length l))"

text \<open>
  \<open>runMFACheck(supabase, displayUrl)\<close>; the first argument is here the outcome of
  \<open>supabase.auth.admin.listUsers()\<close>: the call throws (\<open>Inl\<close>) or returns a response
  holding the users and possibly an error.
\<close>

definition runMFACheck ::
  "(js_error + list_users_response) \<Rightarrow> string \<Rightarrow> mfa_results \<times> effect list" where
  "runMFACheck lu displayUrl =
     (case lu of
        Inl e \<Rightarrow>
          (let (r, fx) = mfa_catch displayUrl mfaResults_init e in (r, ListUsers # fx))
      | Inr resp \<Rightarrow>
          (case usersError resp of
             Some ue \<Rightarrow>
               (let (r, fx) = mfa_catch displayUrl mfaResults_init ue
                in (r, ListUsers #
                       logEvidence ''error'' ''MFA check: Failed to list users.''
                         (JObj [(''project'', JStr displayUrl),
                                (''code'', opt_json (err_code ue)),
                                (''details'', JStr (err_message ue))]) @ fx))
           | None \<Rightarrow>
               (let r = mfa_aggregate (users resp)
                in (r, ListUsers #
                       logEvidence ''info'' ''MFA check completed.''
                         (JObj [(''project'', JStr displayUrl),
                                (''status'', JStr (overallStatus r)),
                                (''count'', JNum (users_count (users resp)))])))))"

text \<open>The users a listing came back with, and the specification's reading of "second factor
  enrolled": at least one factor of the user has status "verified".\<close>

definition upstream_users :: "list_users_response \<Rightarrow> user list" where
  "upstream_users resp = (case users resp of None \<Rightarrow> [] | Some l \<Rightarrow> l)"

definition has_verified_factor :: "user \<Rightarrow> bool" where
  "has_verified_factor u =
     (case factors u of
        None \<Rightarrow> False
      | Some fs \<Rightarrow> \<exists>f \<in> set fs. factor_status f = ''verified'')"

section \<open>The access-control (RLS) check\<close>

text \<open>
  String helpers of the JavaScript library. \<open>toUpperCase\<close> and \<open>toLowerCase\<close> follow the
  Unicode case tables, which a byte string cannot express; they are taken as parameters,
  so every result holds for whatever they compute.
\<close>

definition startsWith :: "string \<Rightarrow> string \<Rightarrow> bool" where
  "startsWith s p = (take (length p) s = p)"

fun includes_str :: "string \<Rightarrow> string \<Rightarrow> bool" where
  "includes_str [] p = (p = [])"
| "includes_str (c # cs) p = (startsWith (c # cs) p \<or> includes_str cs p)"

text \<open>A row of the \<open>pg_policies\<close> view (the columns the server reads or that identify the
  row); \<open>cmd\<close> is a text column, so it is a string or null.\<close>

record policy_row =
  tablename :: string
  policyname :: string
  cmd :: "string option"

text \<open>
  What the connection pool answers to the three fixed queries of the check: the rows of
  the query on \<open>pg_tables\<close>, the \<open>relrowsecurity\<close> column of the rows of the query on
  \<open>pg_class\<close>, and the rows of the query on \<open>pg_policies\<close>. A rejected query is \<open>Inl\<close>.
\<close>

record pg_catalog =
  pg_tables_public :: "js_error + string list"
  pg_class_relrowsecurity :: "string \<Rightarrow> js_error + bool option list"
  pg_policies_where :: "string \<Rightarrow> js_error + policy_row list"

text \<open>The query texts (the first one without the line breaks of its template).\<close>

definition sql_tables :: string where
  "sql_tables = ''SELECT tablename FROM pg_tables WHERE schemaname = 'public' ''"

definition sql_relrowsecurity :: string where
  "sql_relrowsecurity = ''SELECT relrowsecurity FROM pg_class WHERE relname = $1''"

definition sql_policies :: string where
  "sql_policies = ''SELECT * FROM pg_policies WHERE tablename = $1''"

record rls_table =
  name :: string
  rls_enabled :: bool
  recommendation :: "string option"
  policy_counts :: "(string \<times> nat) list"
  current_policies :: "policy_row list"

record rls_results = check_head +
  tables :: "rls_table list"

definition rlsResults_init :: rls_results where
  "rlsResults_init =
     \<lparr>checkName = ''Row Level Security (RLS)'', overallStatus = ''PASSING'',
      error = None, message = None, tables = []\<rparr>"

text \<open>The object \<open>{ SELECT: 0, INSERT: 0, UPDATE: 0, DELETE: 0 }\<close>, in key order.\<close>

definition policyCounts_init :: "(string \<times> nat) list" where
  "policyCounts_init = [(''SELECT'', 0), (''INSERT'', 0), (''UPDATE'', 0), (''DELETE'', 0)]"

text \<open>\<open>obj.hasOwnProperty(k)\<close> and \<open>obj[k]++\<close>; an \<open>undefined\<close> key is the property name
  "undefined".\<close>

definition property_key :: "string option \<Rightarrow> string" where
  "property_key k = (case k of None \<Rightarrow> ''undefined'' | Some s \<Rightarrow> s)"

definition hasOwnProperty :: "(string \<times> nat) list \<Rightarrow> string option \<Rightarrow> bool" where
  "hasOwnProperty obj k = (property_key k \<in> set (map fst obj))"

definition increment :: "(string \<times> nat) list \<Rightarrow> string option \<Rightarrow> (string \<times> nat) list" where
  "increment obj k = map (\<lambda>(k', v). if k' = property_key k then (k', v + 1) else (k', v)) obj"

text \<open>The inner loop over the policies of one table: \<open>policy.cmd?.toUpperCase()\<close>, then
  the guarded increment.\<close>

definition count_policy ::
  "(string \<Rightarrow> string) \<Rightarrow> (string \<times> nat) list \<Rightarrow> policy_row \<Rightarrow> (string \<times> nat) list" where
  "count_policy up counts policy =
     (let c = map_option up (cmd policy)
      in if hasOwnProperty counts c then increment counts c else counts)"

definition count_policies ::
  "(string \<Rightarrow> string) \<Rightarrow> policy_row list \<Rightarrow> (string \<times> nat) list" where
  "count_policies up policies = foldl (count_policy up) policyCounts_init policies"

definition rls_table_entry ::
  "(string \<Rightarrow> string) \<Rightarrow> string \<Rightarrow> bool \<Rightarrow> policy_row list \<Rightarrow> rls_table" where
  "rls_table_entry up t rlsEnabled policies =
     \<lparr>name = t, rls_enabled = rlsEnabled,
      recommendation =
        (if rlsEnabled then None else Some ''Enable RLS for this table to restrict access.''),
      policy_counts = count_policies up policies,
      current_policies = policies\<rparr>"

text \<open>\<open>rlsRes.rows[0]?.relrowsecurity === true\<close>.\<close>

definition relrowsecurity_true :: "bool option list \<Rightarrow> bool" where
  "relrowsecurity_true rows = (case rows of [] \<Rightarrow> False | r # _ \<Rightarrow> r = Some True)"

definition policy_json :: "policy_row \<Rightarrow> json" where
  "policy_json p =
     JObj [(''tablename'', JStr (tablename p)), (''policyname'', JStr (policyname p)),
           (''cmd'', opt_json (cmd p))]"

definition rls_table_json :: "rls_table \<Rightarrow> json" where
  "rls_table_json t =
     JObj [(''name'', JStr (name t)), (''rls_enabled'', JBool (rls_enabled t)),
           (''recommendation'', opt_json (recommendation t)),
           (''policy_counts'', JObj (map (\<lambda>(k, v). (k, JNum (int v))) (policy_counts t))),
           (''current_policies'', JArr (map policy_json (current_policies t)))]"

definition rls_results_json :: "rls_results \<Rightarrow> json" where
  "rls_results_json r =
     JObj [(''checkName'', JStr (checkName r)), (''overallStatus'', JStr (overallStatus r)),
           (''tables'', JArr (map rls_table_json (tables r))),
           (''error'', opt_json (error r)), (''message'', opt_json (message r))]"

text \<open>
  The \<open>for (const table of tableNames)\<close> loop. It returns the exception that ended it, if
  any, the entries pushed to \<open>rlsResults.tables\<close> until then, the value of \<open>allHaveRLS\<close>
  and the effects, in order.
\<close>

fun rls_loop ::
  "(string \<Rightarrow> string) \<Rightarrow> pg_catalog \<Rightarrow> string list \<Rightarrow>
     js_error option \<times> rls_table list \<times> bool \<times> effect list" where
  "rls_loop up pool [] = (None, [], True, [])"
| "rls_loop up pool (t # ts) =
     (case pg_class_relrowsecurity pool t of
        Inl e \<Rightarrow> (Some e, [], True, [PoolQuery sql_relrowsecurity [t]])
      | Inr rows \<Rightarrow>
          (let rlsEnabled = relrowsecurity_true rows;
               fx1 = [PoolQuery sql_relrowsecurity [t],
                      ConsoleLog [JStr (''[RLS][PG] Table \"'' @ t @ ''\" RLS enabled:''),
                                  JBool rlsEnabled],
                      PoolQuery sql_policies [t]]
           in case pg_policies_where pool t of
                Inl e \<Rightarrow> (Some e, [], rlsEnabled, fx1)
              | Inr policies \<Rightarrow>
                  (case rls_loop up pool ts of
                     (ex, pushed, allHave, fx2) \<Rightarrow>
                       (ex, rls_table_entry up t rlsEnabled policies # pushed,
                        rlsEnabled \<and> allHave, fx1 @ fx2))))"

text \<open>The \<open>catch\<close> block of \<open>runRLSCheck\<close>; \<open>pool.end()\<close> is taken not to reject.\<close>

definition rls_catch :: "rls_results \<Rightarrow> js_error \<Rightarrow> rls_results \<times> effect list" where
  "rls_catch r e =
     (r\<lparr>error := Some (err_message e), overallStatus := ''ERROR''\<rparr>,
      [PoolEnd, ConsoleLog [JStr ''[RLS][PG] Error:'', JStr (err_string e)]])"

text \<open>
  \<open>runRLSCheck(connectionString)\<close>. \<open>newPool\<close> stands for \<open>new Pool({ connectionString,
  ssl })\<close> of the pg driver: what the pool built from that connection string (or from none)
  answers.
\<close>

definition runRLSCheck ::
  "(string \<Rightarrow> string) \<Rightarrow> (string option \<Rightarrow> pg_catalog) \<Rightarrow> string option \<Rightarrow>
     rls_results \<times> effect list" where
  "runRLSCheck up newPool connectionString =
     (let pool = newPool connectionString;
          fx0 = [ConsoleLog [JStr ''[RLS][PG] Starting direct Postgres RLS check...''],
                 NewPool connectionString, PoolQuery sql_tables []]
      in case pg_tables_public pool of
           Inl e \<Rightarrow> (let (r, fx) = rls_catch rlsResults_init e in (r, fx0 @ fx))
         | Inr tableNames \<Rightarrow>
             (let fx1 = fx0 @ [ConsoleLog [JStr ''[RLS][PG] Tables found:'',
                                           JArr (map JStr tableNames)]]
              in if length tableNames = 0 then
                   (rlsResults_init\<lparr>overallStatus := ''N/A'',
                      message := Some ''No tables found in public schema.''\<rparr>,
                    fx1 @ [PoolEnd])
                 else
                   (case rls_loop up pool tableNames of
                      (Some e, pushed, allHave, fx2) \<Rightarrow>
                        (let (r, fx) = rls_catch (rlsResults_init\<lparr>tables := pushed\<rparr>) e
                         in (r, fx1 @ fx2 @ fx))
                    | (None, pushed, allHave, fx2) \<Rightarrow>
                        (let r = rlsResults_init\<lparr>tables := pushed,
                                   overallStatus := (if allHave then ''PASSING'' else ''FAILING'')\<rparr>
                         in (r, fx1 @ fx2 @
                                [PoolEnd,
                                 ConsoleLog [JStr ''[RLS][PG] Final RLS results:'',
                                             rls_results_json r]])))))"

text \<open>
  The specification's reading of the tally and of the per-table entry: the tally has the
  four buckets SELECT, INSERT, UPDATE and DELETE, in this order, each bucket counts the
  policy rows whose upper-cased command is its name, and the remediation hint is present
  exactly when the flag is false.
\<close>

definition four_buckets :: "string list" where
  "four_buckets = [''SELECT'', ''INSERT'', ''UPDATE'', ''DELETE'']"

definition recognized :: "(string \<Rightarrow> string) \<Rightarrow> string \<Rightarrow> policy_row \<Rightarrow> bool" where
  "recognized up k p = (map_option up (cmd p) = Some k)"

definition well_tallied :: "(string \<Rightarrow> string) \<Rightarrow> rls_table \<Rightarrow> bool" where
  "well_tallied up t =
     (map fst (policy_counts t) = four_buckets
      \<and> list_all (\<lambda>k. map_of (policy_counts t) k
                        = Some (length (filter (recognized up k) (current_policies t))))
           four_buckets
      \<and> recommendation t =
          (if rls_enabled t then None
           else Some ''Enable RLS for this table to restrict access.''))"

text \<open>Every query of a check against this pool is answered with rows.\<close>

definition all_queries_answered :: "pg_catalog \<Rightarrow> bool" where
  "all_queries_answered pool =
     (case pg_tables_public pool of
        Inl e \<Rightarrow> False
      | Inr ts \<Rightarrow> list_all (\<lambda>t. \<not> isl (pg_class_relrowsecurity pool t)
                               \<and> \<not> isl (pg_policies_where pool t)) ts)"

section \<open>The recovery (PITR) check\<close>

record addon =
  addon_type :: "string option"
  addon_status :: "string option"
  addon_metadata :: "json option"

record project =
  project_name :: "string option"
  project_id :: "string option"
  addons :: "addon list option"

text \<open>
  What \<open>fetch\<close> resolves to: \<open>res.ok\<close>, \<open>res.status\<close>, and the outcomes of
  \<open>await res.text()\<close> and \<open>await res.json()\<close>, the latter already read as the value the
  caller expects (a list of projects, one project).
\<close>

record 'a http_response =
  ok :: bool
  res_status :: nat
  res_text :: "js_error + string"
  res_json :: "js_error + 'a"

record pitr_project =
  pp_name :: "string option"
  pp_ref :: "string option"
  pitrEnabled :: bool
  pitrAddon :: "addon option"
  pp_status :: string
  pp_metadata :: json

record pitr_results =
  pitr_checkName :: string
  status :: string
  pitr_message :: string
  details_projects :: "pitr_project list option"

definition pitrResults_init :: pitr_results where
  "pitrResults_init =
     \<lparr>pitr_checkName = ''Point-in-Time Recovery (PITR)'', status = ''MANUAL_CHECK_REQUIRED'',
      pitr_message = ''Could not check PITR status via Management API.'',
      details_projects = None\<rparr>"

text \<open>Decimal notation of a number, for \<open>${res.status}\<close>.\<close>

fun string_of_nat :: "nat \<Rightarrow> string" where
  "string_of_nat n =
     (if n < 10 then [''0123456789'' ! n]
      else string_of_nat (n div 10) @ [''0123456789'' ! (n mod 10)])"

declare string_of_nat.simps [simp del]

text \<open>\<open>addon.type && addon.type.toLowerCase().includes("pitr")\<close> and
  \<open>project.addons?.find(...)\<close>.\<close>

definition is_pitr_addon :: "(string \<Rightarrow> string) \<Rightarrow> addon \<Rightarrow> bool" where
  "is_pitr_addon lo a =
     (case addon_type a of
        None \<Rightarrow> False
      | Some t \<Rightarrow> t \<noteq> [] \<and> includes_str (lo t) ''pitr'')"

definition find_pitr_addon :: "(string \<Rightarrow> string) \<Rightarrow> project \<Rightarrow> addon option" where
  "find_pitr_addon lo p =
     (case addons p of None \<Rightarrow> None | Some l \<Rightarrow> List.find (is_pitr_addon lo) l)"

text \<open>The JSON values that \<open>||\<close> passes over: null, false, zero and the empty string.\<close>

definition json_falsy :: "json \<Rightarrow> bool" where
  "json_falsy j = (j = JNull \<or> j = JBool False \<or> j = JNum 0 \<or> j = JStr [])"

text \<open>One entry of \<open>details.projects\<close>: \<open>pitrAddon?.status || "not_enabled"\<close> and
  \<open>pitrAddon?.metadata || {}\<close>.\<close>

definition pitr_entry :: "(string \<Rightarrow> string) \<Rightarrow> project \<Rightarrow> pitr_project" where
  "pitr_entry lo p =
     (let a = find_pitr_addon lo p
      in \<lparr>pp_name = project_name p, pp_ref = project_id p,
          pitrEnabled = (a \<noteq> None), pitrAddon = a,
          pp_status =
            (case a of
               None \<Rightarrow> ''not_enabled''
             | Some x \<Rightarrow> (if falsy (addon_status x) then ''not_enabled''
                          else the (addon_status x))),
          pp_metadata =
            (case a of
               None \<Rightarrow> JObj []
             | Some x \<Rightarrow>
                 (case addon_metadata x of
                    None \<Rightarrow> JObj []
                  | Some m \<Rightarrow> if json_falsy m then JObj [] else m))\<rparr>)"

definition addon_json :: "addon \<Rightarrow> json" where
  "addon_json a =
     JObj [(''type'', opt_json (addon_type a)), (''status'', opt_json (addon_status a)),
           (''metadata'', (case addon_metadata a of None \<Rightarrow> JNull | Some m \<Rightarrow> m))]"

definition project_json :: "project \<Rightarrow> json" where
  "project_json p =
     JObj [(''name'', opt_json (project_name p)), (''id'', opt_json (project_id p)),
           (''addons'', (case addons p of None \<Rightarrow> JNull | Some l \<Rightarrow> JArr (map addon_json l)))]"

definition bearer_headers :: "string \<Rightarrow> (string \<times> string) list" where
  "bearer_headers token =
     [(''Authorization'', ''Bearer '' @ token), (''Accept'', ''application/json'')]"

text \<open>The \<open>catch\<close> block of \<open>runPITR\<close>.\<close>

definition pitr_catch :: "string \<Rightarrow> js_error \<Rightarrow> pitr_results \<times> effect list" where
  "pitr_catch displayUrl e =
     (pitrResults_init\<lparr>status := ''ERROR'', pitr_message := err_message e\<rparr>,
      logEvidence ''error'' ''PITR check failed''
        (JObj [(''project'', JStr displayUrl), (''error'', JStr (err_message e))]))"

text \<open>The rest of the \<open>try\<close> block once the list of projects is parsed.\<close>

definition pitr_report ::
  "(string \<Rightarrow> string) \<Rightarrow> string \<Rightarrow> project list \<Rightarrow> pitr_results \<times> effect list" where
  "pitr_report lo displayUrl projects =
     (let entries = map (pitr_entry lo) projects;
          r = (if list_ex (\<lambda>p. \<not> pitrEnabled p) entries
               then pitrResults_init\<lparr>status := ''FAILING'',
                      pitr_message := ''Some projects do not have PITR enabled.'',
                      details_projects := Some entries\<rparr>
               else pitrResults_init\<lparr>status := ''PASSING'',
                      pitr_message := ''PITR status checked for all projects.'',
                      details_projects := Some entries\<rparr>)
      in (r, map (\<lambda>p. ConsoleLog [project_json p]) projects @
             logEvidence ''info'' ''PITR check completed''
               (JObj [(''project'', JStr displayUrl), (''status'', JStr (status r)),
                      (''projects'',
                       JArr (map (\<lambda>p. JObj [(''name'', opt_json (pp_name p)),
                                              (''ref'', opt_json (pp_ref p)),
                                              (''pitrEnabled'', JBool (pitrEnabled p))])
                               entries))])))"

text \<open>
  \<open>runPITR(displayUrl)\<close>. \<open>token\<close> is the constant \<open>MANAGEMENT_ACCESS_TOKEN\<close> (the
  environment variable SUPABASE_PAT, absent or a string) and \<open>fetch_projects\<close> is what
  \<open>fetch\<close> does with the URL and headers of the listing of projects.
\<close>

definition runPITR ::
  "(string \<Rightarrow> string) \<Rightarrow> string option \<Rightarrow>
   (string \<Rightarrow> (string \<times> string) list \<Rightarrow> js_error + project list http_response) \<Rightarrow>
   string \<Rightarrow> pitr_results \<times> effect list" where
  "runPITR lo token fetch_projects displayUrl =
     (if falsy token then
        pitr_catch displayUrl
          (new_Error ''Management API token (SUPABASE_PAT) is not configured'')
      else
        (let url = ''https://api.supabase.com/v1/projects'';
             hs = bearer_headers (the token);
             fx0 = [Fetch url ''GET'' hs None];
             caught = (\<lambda>e. let (r, fx) = pitr_catch displayUrl e in (r, fx0 @ fx))
         in case fetch_projects url hs of
              Inl e \<Rightarrow> caught e
            | Inr res \<Rightarrow>
                if \<not> ok res then
                  (case res_text res of
                     Inl e \<Rightarrow> caught e
                   | Inr errorText \<Rightarrow>
                       caught (new_Error (''Failed to fetch projects: '' @
                                 string_of_nat (res_status res) @ '' '' @ errorText)))
                else
                  (case res_json res of
                     Inl e \<Rightarrow> caught e
                   | Inr projects \<Rightarrow>
                       (let (r, fx) = pitr_report lo displayUrl projects
                        in (r, fx0 @ fx)))))"

section \<open>The request handlers\<close>

text \<open>
  The JSON body of a request: every field is absent or a string (\<open>context\<close> is any JSON
  value). The handlers read the fields they need.
\<close>

record body =
  projectUrl :: "string option"
  serviceKey :: "string option"
  dbConnectionString :: "string option"
  tableName :: "string option"
  userId :: "string option"
  projectRef :: "string option"
  issue :: "string option"
  context_blob :: "json option"

record get_user_response =
  userData_email :: "string option"
  userData :: json
  userError :: "js_error option"

text \<open>The client of the Supabase library, as far as the server uses it: the outcome of
  each administrative call.\<close>

record client =
  listUsers :: "js_error + list_users_response"
  getUserById :: "string \<Rightarrow> js_error + get_user_response"
  resetPasswordForEmail :: "string \<Rightarrow> string \<Rightarrow> js_error + js_error option"

text \<open>
  Everything outside the server that a handler depends on: the two case conversions of
  the string library, the environment variable, and what the libraries and the remote
  services answer.
\<close>

record world =
  toUpperCase :: "string \<Rightarrow> string"
  toLowerCase :: "string \<Rightarrow> string"
  MANAGEMENT_ACCESS_TOKEN :: "string option"
  createClient :: "string \<Rightarrow> string \<Rightarrow> js_error + client"
  newPool :: "string option \<Rightarrow> pg_catalog"
  fetch_projects :: "string \<Rightarrow> (string \<times> string) list \<Rightarrow> js_error + project list http_response"
  fetch_project :: "string \<Rightarrow> (string \<times> string) list \<Rightarrow> js_error + project http_response"
  fetch_patch :: "string \<Rightarrow> (string \<times> string) list \<Rightarrow> string \<Rightarrow> js_error + unit http_response"
  chat_completion :: "string \<Rightarrow> js_error + string"
  stringify_context :: "json option \<Rightarrow> string"

text \<open>The body of a reply, and what becomes of a request: a reply with its HTTP status,
  no reply at all, or an exception that leaves the handler.\<close>

datatype reply_body =
    ErrorBody string
  | ReportBody mfa_results rls_results pitr_results
  | FixRlsBody string string
  | FixRlsErrorBody string js_error
  | FixMfaBody string string string
  | AiBody string

datatype outcome =
    Reply nat reply_body
  | NoReply
  | Unhandled js_error

text \<open>The effects that leave the process: calls to the project, the data store, the
  management API and the language model.\<close>

fun is_outbound :: "effect \<Rightarrow> bool" where
  "is_outbound ListUsers = True"
| "is_outbound (GetUserById _) = True"
| "is_outbound (ResetPasswordForEmail _ _) = True"
| "is_outbound (PoolQuery _ _) = True"
| "is_outbound (Fetch _ _ _ _) = True"
| "is_outbound (ChatCompletion _) = True"
| "is_outbound _ = False"

definition getSupabaseClient ::
  "world \<Rightarrow> string option \<Rightarrow> string option \<Rightarrow> (js_error + client) \<times> effect list" where
  "getSupabaseClient w url key =
     (if falsy url \<or> falsy key then
        (Inl (new_Error ''Supabase project URL and service key are required.''), [])
      else if \<not> startsWith (the url) ''http://'' \<and> \<not> startsWith (the url) ''https://'' then
        (Inl (new_Error
           ''Invalid Supabase project URL format. It should start with http:// or https://''),
         [])
      else (createClient w (the url) (the key), [CreateClient (the url) (the key)]))"

text \<open>\<open>projectUrl.includes("supabase.co") ? projectUrl.substring(0,
  projectUrl.indexOf(".")) + ".supabase.co" : projectUrl\<close>.\<close>

definition displayUrl_of :: "string \<Rightarrow> string" where
  "displayUrl_of u =
     (if includes_str u ''supabase.co''
      then takeWhile (\<lambda>c. c \<noteq> CHR ''.'') u @ ''.supabase.co'' else u)"

text \<open>
  \<open>POST /api/run-checks\<close>. The three checks run under \<open>Promise.all\<close>; their effects are
  listed check after check, which leaves their interleaving out.
\<close>

definition run_checks :: "world \<Rightarrow> body \<Rightarrow> outcome \<times> effect list" where
  "run_checks w b =
     (if falsy (projectUrl b) \<or> falsy (serviceKey b) then
        (Reply 400 (ErrorBody ''Supabase Project URL and Service Key are required.''),
         logEvidence ''error'' ''Missing Supabase credentials for check execution.'' (JObj []))
      else
        (let u = the (projectUrl b);
             k = the (serviceKey b);
             displayUrl = displayUrl_of u;
             fx0 = logEvidence ''info''
                     (''Initiating compliance checks for project: '' @ displayUrl) (JObj [])
                   @ [ConsoleLog [JStr u, JStr k]]
         in case getSupabaseClient w (Some u) (Some k) of
              (Inl e, fxc) \<Rightarrow>
                (Reply 500 (ErrorBody (''Failed to connect to Supabase or run checks: '' @
                                       err_message e)),
                 fx0 @ fxc @
                 logEvidence ''critical''
                   ''Critical error during Supabase client initialization or main check execution.''
                   (JObj [(''error'', JStr (err_message e))]))
            | (Inr supabase, fxc) \<Rightarrow>
                (let (mfaResults, fm) = runMFACheck (listUsers supabase) displayUrl;
                     (rlsResults, fr) =
                        runRLSCheck (toUpperCase w) (newPool w) (dbConnectionString b);
                     (pitrResults, fp) =
                        runPITR (toLowerCase w) (MANAGEMENT_ACCESS_TOKEN w) (fetch_projects w)
                          displayUrl
                 in (Reply 200 (ReportBody mfaResults rlsResults pitrResults),
                     fx0 @ fxc @ fm @ fr @ fp))))"

text \<open>The display form of a project URL that may be absent: \<open>projectUrl &&
  projectUrl.includes("supabase.co") ? ... : projectUrl\<close>.\<close>

definition display_opt :: "string option \<Rightarrow> json" where
  "display_opt url = (case url of None \<Rightarrow> JNull | Some u \<Rightarrow> JStr (displayUrl_of u))"

text \<open>The two statements of the access-control fix, as the template literals build them.\<close>

definition alter_sql :: "string \<Rightarrow> string" where
  \<open>alter_sql t = ''ALTER TABLE public."'' @ t @ ''" ENABLE ROW LEVEL SECURITY;''\<close>

definition create_policy_sql :: "string \<Rightarrow> string" where
  \<open>create_policy_sql t =
     ''CREATE POLICY "placeholder_policy" ON public."'' @ t @ ''" FOR SELECT USING (true);''\<close>

definition fix_rls_catch :: "string \<Rightarrow> js_error \<Rightarrow> outcome \<times> effect list" where
  \<open>fix_rls_catch t e =
     (Reply 500 (FixRlsErrorBody (''Failed to enable RLS for "'' @ t @ ''": '' @ err_string e) e),
      logEvidence ''error'' (''Failed to enable RLS for table: '' @ t @ '' (direct DB)'')
        (JObj [(''error'', JStr (err_json e)), (''errorType'', JStr ''object''),
               (''errorString'', JStr (err_string e)),
               (''errorStack'', opt_json (err_stack e))]))\<close>

definition fix_rls_done :: "json \<Rightarrow> string \<Rightarrow> outcome \<times> effect list" where
  \<open>fix_rls_done displayUrl t =
     (let successMessage =
            ''RLS successfully enabled for table: "'' @ t @
            ''". A placeholder policy was added. Use the chat to generate more policies tailored to your needs!''
      in (Reply 200 (FixRlsBody successMessage t),
          PoolEnd #
          logEvidence ''info'' successMessage
            (JObj [(''project'', displayUrl), (''tableName'', JStr t)])))\<close>

text \<open>
  \<open>POST /api/fix-rls\<close>. The pool built from \<open>dbConnectionString\<close> reaches a data store
  in state \<open>db\<close>; \<open>query db text params\<close> is what the store answers to a statement
  (rows, or a rejection) and the state it is in afterwards.
\<close>

definition fix_rls ::
  "('s \<Rightarrow> string \<Rightarrow> string list \<Rightarrow> (js_error + policy_row list) \<times> 's) \<Rightarrow> 's \<Rightarrow> body \<Rightarrow>
     outcome \<times> effect list \<times> 's" where
  "fix_rls query db b =
     (if falsy (tableName b) then
        (Reply 400 (ErrorBody ''Table Name is required.''), [], db)
      else if falsy (projectUrl b) \<or> falsy (serviceKey b) then
        (Reply 400 (ErrorBody ''Project URL and Service Key are required.''),
         logEvidence ''error'' ''Missing parameters for RLS fix.'' (JObj []), db)
      else
        (let t = the (tableName b);
             fx1 = [NewPool (dbConnectionString b), PoolQuery (alter_sql t) []];
             fx2 = fx1 @ [PoolQuery sql_policies [t]];
             fx3 = fx2 @ [PoolQuery (create_policy_sql t) []];
             caught = (\<lambda>e fx s. let (out, fxc) = fix_rls_catch t e in (out, fx @ fxc, s));
             done = (\<lambda>fx s. let (out, fxd) = fix_rls_done (display_opt (projectUrl b)) t
                              in (out, fx @ fxd, s))
         in case query db (alter_sql t) [] of
              (Inl e, db1) \<Rightarrow> caught e fx1 db1
            | (Inr _, db1) \<Rightarrow>
                (case query db1 sql_policies [t] of
                   (Inl e, db2) \<Rightarrow> caught e fx2 db2
                 | (Inr existingPolicies, db2) \<Rightarrow>
                     if length existingPolicies = 0 then
                       (case query db2 (create_policy_sql t) [] of
                          (Inl e, db3) \<Rightarrow> caught e fx3 db3
                        | (Inr _, db3) \<Rightarrow> done fx3 db3)
                     else done fx2 db2)))"

text \<open>The exception of \<open>projectUrl.includes(...)\<close> on an absent \<open>projectUrl\<close>, raised
  before the handler's \<open>try\<close>.\<close>

definition includes_of_undefined :: js_error where
  "includes_of_undefined =
     \<lparr>err_message = ''Cannot read properties of undefined (reading 'includes')'',
      err_code = None, err_json = ''{}'',
      err_string = ''TypeError: Cannot read properties of undefined (reading 'includes')'',
      err_stack = None, err_status = None\<rparr>"

definition fix_mfa_catch :: "string \<Rightarrow> js_error \<Rightarrow> outcome" where
  "fix_mfa_catch uid e =
     Reply 500 (ErrorBody (''Failed to enable MFA for user '' @ uid @ '': '' @ err_message e))"

text \<open>\<open>POST /api/fix-mfa\<close>.\<close>

definition fix_mfa :: "world \<Rightarrow> body \<Rightarrow> outcome \<times> effect list" where
  "fix_mfa w b =
     (case projectUrl b of
        None \<Rightarrow> (Unhandled includes_of_undefined, [])
      | Some u \<Rightarrow>
          if falsy (projectUrl b) \<or> falsy (serviceKey b) \<or> falsy (userId b) then
            (Reply 400 (ErrorBody ''Project URL, Service Key, and User ID are required.''),
             logEvidence ''error'' ''Missing parameters for MFA fix.'' (JObj []))
          else
            (let displayUrl = displayUrl_of u;
                 uid = the (userId b)
             in case getSupabaseClient w (projectUrl b) (serviceKey b) of
                  (Inl e, fxc) \<Rightarrow> (fix_mfa_catch uid e, fxc)
                | (Inr supabase, fxc) \<Rightarrow>
                    (let fx1 = fxc @ [GetUserById uid]
                     in case getUserById supabase uid of
                          Inl e \<Rightarrow> (fix_mfa_catch uid e, fx1)
                        | Inr resp \<Rightarrow>
                            (case userError resp of
                               Some ue \<Rightarrow>
                                 (fix_mfa_catch uid ue,
                                  fx1 @ logEvidence ''error''
                                    (''Failed to find user: '' @ uid @ '' on project '' @ displayUrl)
                                    (JObj [(''error'', JStr (err_message ue))]))
                             | None \<Rightarrow>
                                 if falsy (userData_email resp) then
                                   (let e = new_Error
                                         ''User email not found. Cannot enable MFA without an email address.''
                                    in (fix_mfa_catch uid e,
                                        fx1 @ logEvidence ''error''
                                          (''Failed to enable MFA: '' @ err_message e)
                                          (JObj [(''userId'', JStr uid),
                                                 (''userData'', userData resp)])))
                                 else
                                   (let userEmail = the (userData_email resp);
                                        redirectTo = u @ ''/auth/reset-password?mfa_setup=true'';
                                        fx2 = fx1 @ [ResetPasswordForEmail userEmail redirectTo]
                                    in case resetPasswordForEmail supabase userEmail redirectTo of
                                         Inl e \<Rightarrow> (fix_mfa_catch uid e, fx2)
                                       | Inr (Some resetError) \<Rightarrow>
                                           (fix_mfa_catch uid resetError,
                                            fx2 @ logEvidence ''error''
                                              (''Failed to send MFA setup email to user: '' @ userEmail)
                                              (JObj [(''error'', JStr (err_message resetError))]))
                                       | Inr None \<Rightarrow>
                                           (let successMessage =
                                                  ''A password reset email has been sent to '' @ userEmail @
                                                  ''. When resetting the password, the user will be prompted to set up MFA.''
                                            in (Reply 200 (FixMfaBody successMessage uid userEmail),
                                                fx2 @ logEvidence ''info'' successMessage
                                                  (JObj [(''project'', JStr displayUrl),
                                                         (''userId'', JStr uid)]))))))))"

text \<open>
  \<open>POST /api/fix-pitr\<close>. Inside the handler's \<open>try\<close> block, \<open>const res = await
  fetch(...)\<close> declares a second \<open>res\<close> for the whole block, which hides the response
  object of the handler there. The \<open>return res.json(...)\<close> of the branch for an addon
  that is already present stands before that declaration, so it reads the block's \<open>res\<close>
  before its initialisation and throws a ReferenceError, which the handler's \<open>catch\<close>
  (where \<open>res\<close> is the response object again) turns into a reply with status 500. The
  \<open>res.json(...)\<close> after a successful PATCH is a call on the result of \<open>fetch\<close>: it
  sends nothing, and the request is left without a reply.
\<close>

definition res_before_initialization :: js_error where
  "res_before_initialization =
     \<lparr>err_message = ''Cannot access 'res' before initialization'',
      err_code = None, err_json = ''{}'',
      err_string = ''ReferenceError: Cannot access 'res' before initialization'',
      err_stack = None, err_status = None\<rparr>"

definition patch_headers :: "string \<Rightarrow> (string \<times> string) list" where
  "patch_headers token =
     [(''Authorization'', ''Bearer '' @ token), (''Accept'', ''application/json''),
      (''Content-Type'', ''application/json'')]"

definition patch_body :: string where
  \<open>patch_body = ''[{"type":"pitr","options":{"retention_period_days":7}}]''\<close>

definition fix_pitr_catch :: "string \<Rightarrow> js_error \<Rightarrow> outcome \<times> effect list" where
  "fix_pitr_catch ref e =
     (Reply 500 (ErrorBody (''Failed to enable PITR for project '' @ ref @ '': '' @
                            err_message e)),
      logEvidence ''error'' (''Failed to enable PITR for project: '' @ ref)
        (JObj [(''error'', JStr (err_message e))]))"

definition fix_pitr :: "world \<Rightarrow> body \<Rightarrow> outcome \<times> effect list" where
  "fix_pitr w b =
     (case projectUrl b of
        None \<Rightarrow> (Unhandled includes_of_undefined, [])
      | Some u \<Rightarrow>
          if falsy (projectUrl b) \<or> falsy (serviceKey b) \<or> falsy (projectRef b) then
            (Reply 400 (ErrorBody ''Project URL, Service Key, and Project Ref are required.''),
             logEvidence ''error'' ''Missing parameters for PITR fix.'' (JObj []))
          else if falsy (MANAGEMENT_ACCESS_TOKEN w) then
            (Reply 500 (ErrorBody
               ''Management API token (SUPABASE_PAT) is not configured. Please set it in your environment variables.''),
             logEvidence ''error'' ''Management API token not configured'' (JObj []))
          else
            (let displayUrl = displayUrl_of u;
                 ref = the (projectRef b);
                 token = the (MANAGEMENT_ACCESS_TOKEN w);
                 url1 = ''https://api.supabase.com/v1/projects/'' @ ref;
                 url2 = url1 @ ''/addons'';
                 fx1 = [Fetch url1 ''GET'' (bearer_headers token) None];
                 caught = (\<lambda>e fx. let (out, fxc) = fix_pitr_catch ref e in (out, fx @ fxc))
             in case fetch_project w url1 (bearer_headers token) of
                  Inl e \<Rightarrow> caught e fx1
                | Inr checkRes \<Rightarrow>
                    if \<not> ok checkRes then
                      (case res_text checkRes of
                         Inl e \<Rightarrow> caught e fx1
                       | Inr errorText \<Rightarrow>
                           caught (new_Error (''Failed to check project status: '' @
                                     string_of_nat (res_status checkRes) @ '' '' @ errorText)) fx1)
                    else
                      (case res_json checkRes of
                         Inl e \<Rightarrow> caught e fx1
                       | Inr project \<Rightarrow>
                           if find_pitr_addon (toLowerCase w) project \<noteq> None then
                             caught res_before_initialization
                               (fx1 @ logEvidence ''info''
                                  (''PITR is already enabled for project: '' @ ref @ ''.'')
                                  (JObj [(''project'', JStr displayUrl),
                                         (''projectRef'', JStr ref)]))
                           else
                             (let fx2 = fx1 @ [Fetch url2 ''PATCH'' (patch_headers token)
                                                 (Some patch_body)]
                              in case fetch_patch w url2 (patch_headers token) patch_body of
                                   Inl e \<Rightarrow> caught e fx2
                                 | Inr res \<Rightarrow>
                                     if \<not> ok res then
                                       (case res_text res of
                                          Inl e \<Rightarrow> caught e fx2
                                        | Inr errorText \<Rightarrow>
                                            caught (new_Error (''Failed to enable PITR: '' @ errorText))
                                              (fx2 @ logEvidence ''error''
                                                 (''Failed to enable PITR for project: '' @ ref)
                                                 (JObj [(''error'', JStr errorText)])))
                                     else
                                       (NoReply,
                                        fx2 @ logEvidence ''info''
                                          (''PITR has been enabled for project: '' @ ref @
                                           '' with 7 days retention period. The changes may take a few minutes to take effect.'')
                                          (JObj [(''project'', JStr displayUrl),
                                                 (''projectRef'', JStr ref)]))))))"

text \<open>\<open>POST /api/ai-assist\<close>; the time stamp of the reply is left out.\<close>

definition ai_assist :: "world \<Rightarrow> body \<Rightarrow> outcome \<times> effect list" where
  "ai_assist w b =
     (if falsy (projectUrl b) \<or> falsy (serviceKey b) \<or> falsy (issue b) then
        (Reply 400 (ErrorBody ''Project URL, Service Key, and Issue description are required.''),
         logEvidence ''error'' ''Missing parameters for AI assistance.'' (JObj []))
      else
        (let q = the (issue b);
             userPrompt = ''Context:'' @ [CHR 0x0A] @ stringify_context w (context_blob b) @
                          [CHR 0x0A, CHR 0x0A] @ ''Prompt:'' @ [CHR 0x0A] @ q
         in case chat_completion w userPrompt of
              Inl e \<Rightarrow>
                (Reply 500 (ErrorBody (''Failed to get AI compliance analysis: '' @ err_message e)),
                 ChatCompletion userPrompt #
                 logEvidence ''error'' ''AI compliance analysis failed''
                   (JObj [(''project'', display_opt (projectUrl b)),
                          (''error'', JStr (err_message e))]))
            | Inr response \<Rightarrow>
                (Reply 200 (AiBody response),
                 ChatCompletion userPrompt #
                 logEvidence ''info'' ''AI compliance analysis provided''
                   (JObj [(''project'', display_opt (projectUrl b)),
                          (''analysisType'', JStr (take 100 q @ ''...''))]))))"

section \<open>Quoted identifiers\<close>

text \<open>
  Reading a quoted identifier, as SQL delimits it: the text after the opening double quote
  runs to the first double quote that is not doubled, and a doubled one stands for one
  double quote of the name. The result is the name and the text after the closing quote.
\<close>

fun read_quoted :: "string \<Rightarrow> (string \<times> string) option" where
  "read_quoted [] = None"
| "read_quoted [c] = (if c = CHR 0x22 then Some ([], []) else None)"
| "read_quoted (c # d # ds) =
     (if c = CHR 0x22 then
        (if d = CHR 0x22 then map_option (\<lambda>(i, r). (CHR 0x22 # i, r)) (read_quoted ds)
         else Some ([], d # ds))
      else map_option (\<lambda>(i, r). (c # i, r)) (read_quoted (d # ds)))"

definition quote_free :: "string \<Rightarrow> bool" where
  "quote_free t = (CHR 0x22 \<notin> set t)"

text \<open>The fixed parts of the two templates, before and after the spliced name.\<close>

definition alter_prefix :: string where
  \<open>alter_prefix = ''ALTER TABLE public."''\<close>

definition alter_suffix :: string where
  \<open>alter_suffix = ''" ENABLE ROW LEVEL SECURITY;''\<close>

definition create_prefix :: string where
  \<open>create_prefix = ''CREATE POLICY "placeholder_policy" ON public."''\<close>

definition create_suffix :: string where
  \<open>create_suffix = ''" FOR SELECT USING (true);''\<close>

section \<open>A data store for the access-control fix\<close>

text \<open>
  Modelled from the spec: the data store behind the pool, which is not part of the
  repository. It holds, for each table of the default schema, the access-control flag and
  the policy rows, and understands the three statements of the fix: the flag-enabling
  statement sets the flag of an existing table, the query on \<open>pg_policies\<close> returns the
  policy rows of the table, and the policy-creating statement adds the placeholder policy
  to an existing table that has no policy of that name. The store reads the table of a
  statement as a quoted identifier; a text that is not one of the three statements around
  one quoted identifier is rejected and changes nothing (the store does not run several
  statements sent as one text).
\<close>

record table_state =
  relrowsecurity :: bool
  table_policies :: "policy_row list"

type_synonym store = "string \<Rightarrow> table_state option"

definition strip_prefix :: "string \<Rightarrow> string \<Rightarrow> string option" where
  "strip_prefix pre s = (if take (length pre) s = pre then Some (drop (length pre) s) else None)"

definition placeholder_row :: "string \<Rightarrow> policy_row" where
  "placeholder_row t =
     \<lparr>tablename = t, policyname = ''placeholder_policy'', cmd = Some ''SELECT''\<rparr>"

definition is_placeholder :: "policy_row \<Rightarrow> bool" where
  "is_placeholder p = (policyname p = ''placeholder_policy'')"

definition syntax_error :: js_error where
  "syntax_error = new_Error ''syntax error''"

definition store_alter :: "store \<Rightarrow> string \<Rightarrow> (js_error + policy_row list) \<times> store" where
  "store_alter db t =
     (case db t of
        None \<Rightarrow> (Inl (new_Error ''relation does not exist''), db)
      | Some ts \<Rightarrow> (Inr [], db(t \<mapsto> ts\<lparr>relrowsecurity := True\<rparr>)))"

definition store_create :: "store \<Rightarrow> string \<Rightarrow> (js_error + policy_row list) \<times> store" where
  "store_create db t =
     (case db t of
        None \<Rightarrow> (Inl (new_Error ''relation does not exist''), db)
      | Some ts \<Rightarrow>
          if list_ex is_placeholder (table_policies ts)
          then (Inl (new_Error ''policy already exists''), db)
          else (Inr [],
                db(t \<mapsto> ts\<lparr>table_policies := table_policies ts @ [placeholder_row t]\<rparr>)))"

text \<open>A statement that starts with \<open>pre\<close>: the quoted identifier that follows must be
  followed by \<open>rest\<close>, and then \<open>run\<close> is applied to the table of that name.\<close>

definition on_identifier ::
  "string \<Rightarrow> string \<Rightarrow> store \<Rightarrow> (store \<Rightarrow> string \<Rightarrow> (js_error + policy_row list) \<times> store) \<Rightarrow>
     (js_error + policy_row list) \<times> store" where
  "on_identifier s rest db run =
     (case read_quoted s of
        None \<Rightarrow> (Inl syntax_error, db)
      | Some (t, r) \<Rightarrow> if r = rest then run db t else (Inl syntax_error, db))"

definition store_query ::
  "store \<Rightarrow> string \<Rightarrow> string list \<Rightarrow> (js_error + policy_row list) \<times> store" where
  "store_query db text params =
     (if text = sql_policies then
        (case params of
           [t] \<Rightarrow> (Inr (case db t of None \<Rightarrow> [] | Some ts \<Rightarrow> table_policies ts), db)
         | _ \<Rightarrow> (Inl (new_Error ''wrong number of parameters''), db))
      else
        (case strip_prefix alter_prefix text of
           Some s \<Rightarrow> on_identifier s (tl alter_suffix) db store_alter
         | None \<Rightarrow>
             (case strip_prefix create_prefix text of
                Some s \<Rightarrow> on_identifier s (tl create_suffix) db store_create
              | None \<Rightarrow> (Inl syntax_error, db))))"


definition sql_statements :: "effect list \<Rightarrow> effect list" where
  "sql_statements fx = filter (\<lambda>e. case e of PoolQuery _ _ \<Rightarrow> True | _ \<Rightarrow> False) fx"

text \<open>Writing a name as a quoted identifier doubles its double quotes; \<open>ends_identifier\<close>
  says that a text does not go on with a double quote.\<close>

definition double_quotes :: "string \<Rightarrow> string" where
  "double_quotes s = concat (map (\<lambda>c. if c = CHR 0x22 then [c, c] else [c]) s)"

definition ends_identifier :: "string \<Rightarrow> bool" where
  "ends_identifier r = (case r of [] \<Rightarrow> True | c # _ \<Rightarrow> c \<noteq> CHR 0x22)"


text \<open>The message of \<open>getSupabaseClient\<close> for an endpoint without scheme, and that
  condition.\<close>

definition invalid_url_message :: string where
  "invalid_url_message =
     ''Invalid Supabase project URL format. It should start with http:// or https://''"

definition no_scheme :: "string \<Rightarrow> bool" where
  "no_scheme u = (\<not> startsWith u ''http://'' \<and> \<not> startsWith u ''https://'')"

text \<open>
  The first query, in the order in which the check sends them, that the pool rejects: the
  listing of the tables, then for each table in turn the query on \<open>pg_class\<close> and the
  query on \<open>pg_policies\<close>.
\<close>

fun first_rejection_in :: "pg_catalog \<Rightarrow> string list \<Rightarrow> js_error option" where
  "first_rejection_in pool [] = None"
| "first_rejection_in pool (t # ts) =
     (case pg_class_relrowsecurity pool t of
        Inl e \<Rightarrow> Some e
      | Inr _ \<Rightarrow>
          (case pg_policies_where pool t of
             Inl e \<Rightarrow> Some e
           | Inr _ \<Rightarrow> first_rejection_in pool ts))"

definition first_rejection :: "pg_catalog \<Rightarrow> js_error option" where
  "first_rejection pool =
     (case pg_tables_public pool of
        Inl e \<Rightarrow> Some e
      | Inr ts \<Rightarrow> first_rejection_in pool ts)"

text \<open>The address of the listing of projects.\<close>

definition projects_url :: string where
  "projects_url = ''https://api.supabase.com/v1/projects''"


section \<open>Example data\<close>

definition alice :: user where
  "alice = \<lparr>ident = Some ''u1'', email = Some ''a@example.org'', phone = None,
            factors = Some [\<lparr>factor_status = ''unverified''\<rparr>, \<lparr>factor_status = ''verified''\<rparr>]\<rparr>"

definition bob :: user where
  "bob = \<lparr>ident = Some ''u2'', email = Some ''b@example.org'', phone = None, factors = None\<rparr>"

text \<open>An upper-casing of the ASCII letters, to run the check on examples.\<close>

definition ascii_upper :: "string \<Rightarrow> string" where
  "ascii_upper s =
     map (\<lambda>c. case map_of (zip ''abcdefghijklmnopqrstuvwxyz'' ''ABCDEFGHIJKLMNOPQRSTUVWXYZ'') c of
                None \<Rightarrow> c | Some u \<Rightarrow> u) s"

definition orders_policies :: "policy_row list" where
  "orders_policies =
     [\<lparr>tablename = ''orders'', policyname = ''read_own'', cmd = Some ''select''\<rparr>,
      \<lparr>tablename = ''orders'', policyname = ''everything'', cmd = Some ''ALL''\<rparr>,
      \<lparr>tablename = ''orders'', policyname = ''odd'', cmd = None\<rparr>]"

definition pool_mixed :: pg_catalog where
  "pool_mixed =
     \<lparr>pg_tables_public = Inr [''orders'', ''users''],
      pg_class_relrowsecurity = (\<lambda>t. Inr (if t = ''users'' then [Some True] else [Some False])),
      pg_policies_where = (\<lambda>t. Inr (if t = ''orders'' then orders_policies else []))\<rparr>"

definition pool_empty :: pg_catalog where
  "pool_empty =
     \<lparr>pg_tables_public = Inr [],
      pg_class_relrowsecurity = (\<lambda>t. Inr []),
      pg_policies_where = (\<lambda>t. Inr [])\<rparr>"

definition pool_secured :: pg_catalog where
  "pool_secured =
     \<lparr>pg_tables_public = Inr [''users''],
      pg_class_relrowsecurity = (\<lambda>t. Inr [Some True]),
      pg_policies_where = (\<lambda>t. Inr [])\<rparr>"

definition ascii_lower :: "string \<Rightarrow> string" where
  "ascii_lower s =
     map (\<lambda>c. case map_of (zip ''ABCDEFGHIJKLMNOPQRSTUVWXYZ'' ''abcdefghijklmnopqrstuvwxyz'') c of
                None \<Rightarrow> c | Some u \<Rightarrow> u) s"

definition pool_refusing :: pg_catalog where
  "pool_refusing =
     \<lparr>pg_tables_public = Inl (new_Error ''connect ECONNREFUSED 127.0.0.1:5432''),
      pg_class_relrowsecurity = (\<lambda>t. Inl (new_Error ''connect ECONNREFUSED 127.0.0.1:5432'')),
      pg_policies_where = (\<lambda>t. Inl (new_Error ''connect ECONNREFUSED 127.0.0.1:5432''))\<rparr>"

definition client_ok :: client where
  "client_ok =
     \<lparr>listUsers = Inr \<lparr>users = Some [alice], usersError = None\<rparr>,
      getUserById = (\<lambda>uid. Inr \<lparr>userData_email = Some ''a@example.org'', userData = JObj [],
                                 userError = None\<rparr>),
      resetPasswordForEmail = (\<lambda>e r. Inr None)\<rparr>"

definition project_with_pitr :: project where
  "project_with_pitr =
     \<lparr>project_name = Some ''shop'', project_id = Some ''abcdefgh'',
      addons = Some [\<lparr>addon_type = Some ''PITR_7'', addon_status = Some ''active'',
                      addon_metadata = None\<rparr>]\<rparr>"

text \<open>A world in which every service answers, and variants of it.\<close>

definition world_ok :: world where
  "world_ok =
     \<lparr>toUpperCase = ascii_upper, toLowerCase = ascii_lower,
      MANAGEMENT_ACCESS_TOKEN = Some ''sbp_0123'',
      createClient = (\<lambda>u k. Inr client_ok),
      newPool = (\<lambda>c. pool_mixed),
      fetch_projects = (\<lambda>u h. Inr \<lparr>ok = True, res_status = 200, res_text = Inr ''[]'',
                                    res_json = Inr [project_with_pitr]\<rparr>),
      fetch_project = (\<lambda>u h. Inr \<lparr>ok = True, res_status = 200, res_text = Inr ''{}'',
                                   res_json = Inr project_with_pitr\<rparr>),
      fetch_patch = (\<lambda>u h d. Inr \<lparr>ok = True, res_status = 200, res_text = Inr ''{}'',
                                   res_json = Inr ()\<rparr>),
      chat_completion = (\<lambda>p. Inr ''Enable RLS on every table.''),
      stringify_context = (\<lambda>c. ''null'')\<rparr>"

definition world_forbidden :: world where
  "world_forbidden =
     world_ok\<lparr>fetch_projects :=
       (\<lambda>u h. Inr \<lparr>ok = False, res_status = 403, res_text = Inr ''Forbidden'',
                    res_json = Inl (new_Error ''Unexpected token'')\<rparr>)\<rparr>"

definition world_no_token :: world where
  "world_no_token = world_ok\<lparr>MANAGEMENT_ACCESS_TOKEN := None\<rparr>"

definition world_no_database :: world where
  "world_no_database = world_ok\<lparr>newPool := (\<lambda>c. pool_refusing)\<rparr>"

definition client_down :: client where
  "client_down =
     \<lparr>listUsers = Inl (new_Error ''fetch failed''),
      getUserById = (\<lambda>uid. Inl (new_Error ''fetch failed'')),
      resetPasswordForEmail = (\<lambda>e r. Inl (new_Error ''fetch failed''))\<rparr>"

definition world_failing :: world where
  "world_failing =
     world_forbidden\<lparr>createClient := (\<lambda>u k. Inr client_down), newPool := (\<lambda>c. pool_refusing)\<rparr>"

text \<open>The error of a listing of users that the project answered with HTTP status 403, and
  worlds in which the body of the answer of the management API cannot be read.\<close>

definition user_not_allowed :: js_error where
  "user_not_allowed =
     \<lparr>err_message = ''User not allowed'', err_code = Some ''not_admin'',
      err_json = ''{}'', err_string = ''AuthApiError: User not allowed'', err_stack = None,
      err_status = Some 403\<rparr>"

definition world_bad_json :: world where
  "world_bad_json =
     world_ok\<lparr>fetch_projects :=
       (\<lambda>u h. Inr \<lparr>ok = True, res_status = 200, res_text = Inr ''<html>'',
                    res_json = Inl (new_Error ''Unexpected token < in JSON at position 0'')\<rparr>)\<rparr>"

definition world_bad_text :: world where
  "world_bad_text =
     world_ok\<lparr>fetch_projects :=
       (\<lambda>u h. Inr \<lparr>ok = False, res_status = 502, res_text = Inl (new_Error ''Premature close''),
                    res_json = Inl (new_Error ''Premature close'')\<rparr>)\<rparr>"

definition request_ok :: body where
  "request_ok =
     \<lparr>projectUrl = Some ''https://abcdefgh.supabase.co'', serviceKey = Some ''service-role-secret'',
      dbConnectionString = Some ''postgresql://postgres:pw@db.example.org:5432/postgres'',
      tableName = Some ''orders'', userId = Some ''u1'', projectRef = Some ''abcdefgh'',
      issue = Some ''How do I enable RLS?'', context_blob = None\<rparr>"

definition injected_name :: string where
  \<open>injected_name = ''x" ENABLE ROW LEVEL SECURITY; DROP TABLE public."orders''\<close>

text \<open>A store with a table "orders" that has two SELECT policies and a table "items"
  without policies, both with the flag off.\<close>

definition orders_table :: table_state where
  "orders_table =
     \<lparr>relrowsecurity = False,
      table_policies =
        [\<lparr>tablename = ''orders'', policyname = ''read_own'', cmd = Some ''SELECT''\<rparr>,
         \<lparr>tablename = ''orders'', policyname = ''read_team'', cmd = Some ''SELECT''\<rparr>]\<rparr>"

definition items_table :: table_state where
  "items_table = \<lparr>relrowsecurity = False, table_policies = []\<rparr>"

definition store_shop :: store where
  "store_shop = [''orders'' \<mapsto> orders_table, ''items'' \<mapsto> items_table]"





definition request_no_scheme :: body where
  "request_no_scheme = request_ok\<lparr>projectUrl := Some ''abcdefgh.supabase.co''\<rparr>"

definition request_no_user :: body where
  "request_no_user = request_no_scheme\<lparr>userId := None\<rparr>"

definition request_no_key :: body where
  "request_no_key = request_ok\<lparr>serviceKey := None\<rparr>"

section \<open>Properties of the MFA check\<close>

lemma mfa_enabled_entry:
  "(mfa_enabled (mfa_entry u) = Some True) = has_verified_factor u"
  by (simp add: mfa_entry_def isMfaEnabled_def has_verified_factor_def list_ex_iff
           split: option.splits)

lemma mfa_aggregate_users:
  "mfa_users (mfa_aggregate us) = map mfa_entry (case us of None \<Rightarrow> [] | Some l \<Rightarrow> l)"
  by (simp add: mfa_aggregate_def mfaResults_init_def split: option.splits)

lemma mfa_aggregate_status:
  "overallStatus (mfa_aggregate us) =
     (case us of None \<Rightarrow> ''N/A''
      | Some l \<Rightarrow> if l = [] then ''N/A''
                  else if (\<forall>u \<in> set l. has_verified_factor u) then ''PASSING'' else ''FAILING'')"
  by (simp add: mfa_aggregate_def mfaResults_init_def list_all_iff mfa_enabled_entry[symmetric]
        mfa_entry_def split: option.splits)

lemma mfa_aggregate_message:
  "message (mfa_aggregate us) =
     (if (case us of None \<Rightarrow> [] | Some l \<Rightarrow> l) = [] then Some ''No users found in the project.'' else None)"
  by (simp add: mfa_aggregate_def mfaResults_init_def split: option.splits)

lemma mfa_catch_fst:
  "fst (mfa_catch d r e) =
     r\<lparr>error := Some (if err_message e \<noteq> [] then err_message e else err_json e),
       overallStatus := ''ERROR''\<rparr>"
  by (simp add: mfa_catch_def Let_def)

lemma runMFACheck_fst:
  "fst (runMFACheck lu d) =
     (case lu of Inl e \<Rightarrow> fst (mfa_catch d mfaResults_init e)
      | Inr resp \<Rightarrow> (case usersError resp of Some ue \<Rightarrow> fst (mfa_catch d mfaResults_init ue)
                     | None \<Rightarrow> mfa_aggregate (users resp)))"
  by (simp add: runMFACheck_def Let_def split_beta split: sum.splits option.splits)

text \<open>
  Claim C1. The result of the MFA check is PASSING exactly when its user list is not empty
  and every entry has \<open>mfa_enabled = true\<close>. When the listing succeeded, an entry's
  \<open>mfa_enabled\<close> is true exactly when that user has a factor with status "verified", in
  the order of the listing; a listing without users gives N/A with the message "No users
  found in the project."; and a listing with users of which one is not enrolled gives
  FAILING.
\<close>

theorem mfa_status_invariant:
  assumes run: "runMFACheck lu displayUrl = (r, fx)"
  shows "(overallStatus r = ''PASSING'' \<longleftrightarrow>
            mfa_users r \<noteq> [] \<and> (\<forall>e \<in> set (mfa_users r). mfa_enabled e = Some True))
       \<and> (\<forall>resp. lu = Inr resp \<and> usersError resp = None \<longrightarrow>
            map (\<lambda>e. mfa_enabled e = Some True) (mfa_users r)
              = map has_verified_factor (upstream_users resp)
          \<and> (upstream_users resp = [] \<longrightarrow>
               overallStatus r = ''N/A'' \<and> message r = Some ''No users found in the project.'')
          \<and> (upstream_users resp \<noteq> []
               \<and> \<not> (\<forall>e \<in> set (mfa_users r). mfa_enabled e = Some True) \<longrightarrow>
               overallStatus r = ''FAILING''))"
proof -
  have r: "r = fst (runMFACheck lu displayUrl)" using run by simp
  have A: "overallStatus r = ''PASSING'' \<longleftrightarrow>
            mfa_users r \<noteq> [] \<and> (\<forall>e \<in> set (mfa_users r). mfa_enabled e = Some True)"
    unfolding r runMFACheck_fst
    by (auto simp: mfa_catch_fst mfaResults_init_def mfa_aggregate_users mfa_aggregate_status
          mfa_enabled_entry split: sum.splits option.splits)
  have B: "map (\<lambda>e. mfa_enabled e = Some True) (mfa_users r)
              = map has_verified_factor (upstream_users resp)
          \<and> (upstream_users resp = [] \<longrightarrow>
               overallStatus r = ''N/A'' \<and> message r = Some ''No users found in the project.'')
          \<and> (upstream_users resp \<noteq> []
               \<and> \<not> (\<forall>e \<in> set (mfa_users r). mfa_enabled e = Some True) \<longrightarrow>
               overallStatus r = ''FAILING'')"
    if "lu = Inr resp" "usersError resp = None" for resp
    unfolding r runMFACheck_fst using that
    by (auto simp: mfa_aggregate_users mfa_aggregate_status mfa_aggregate_message
          upstream_users_def mfa_enabled_entry comp_def split: option.splits)
  show ?thesis using A B by blast
qed

theorem mfa_status_invariant_witness:
  "overallStatus (fst (runMFACheck (Inr \<lparr>users = Some [alice, bob], usersError = None\<rparr>) ''https://p.supabase.co'')) = ''FAILING''
   \<and> overallStatus (fst (runMFACheck (Inr \<lparr>users = Some [], usersError = None\<rparr>) ''https://p.supabase.co'')) = ''N/A''"
proof -
  let ?r1 = "runMFACheck (Inr \<lparr>users = Some [alice, bob], usersError = None\<rparr>) ''https://p.supabase.co''"
  let ?r2 = "runMFACheck (Inr \<lparr>users = Some [], usersError = None\<rparr>) ''https://p.supabase.co''"
  have 1: "mfa_users (fst ?r1) = [mfa_entry alice, mfa_entry bob]"
    by (simp add: runMFACheck_def mfa_aggregate_def mfaResults_init_def Let_def)
  have 2: "mfa_enabled (mfa_entry bob) = None"
    by (simp add: mfa_entry_def isMfaEnabled_def bob_def)
  from mfa_status_invariant[of _ _ "fst ?r1" "snd ?r1", OF prod.collapse[symmetric]]
       mfa_status_invariant[of _ _ "fst ?r2" "snd ?r2", OF prod.collapse[symmetric]]
  show ?thesis
    by (simp add: 1 2 upstream_users_def)
qed

section \<open>Properties of the access-control check\<close>

lemma increment_keys: "map fst (increment obj k) = map fst obj"
  by (induction obj) (auto simp: increment_def)

lemma count_policy_keys: "map fst (count_policy up c p) = map fst c"
  by (simp add: count_policy_def Let_def increment_keys)

lemma foldl_count_policy_keys: "map fst (foldl (count_policy up) c ps) = map fst c"
  by (induction ps arbitrary: c) (simp_all add: count_policy_keys)

lemma map_of_increment:
  "map_of (increment obj k) x =
     (if x = property_key k then map_option Suc (map_of obj x) else map_of obj x)"
  by (induction obj) (auto simp: increment_def)

lemma map_of_count_policy:
  "map_of (count_policy up c p) x =
     (if x = property_key (map_option up (cmd p)) then map_option Suc (map_of c x)
      else map_of c x)"
proof (cases "hasOwnProperty c (map_option up (cmd p))")
  case True
  then show ?thesis by (simp add: count_policy_def Let_def map_of_increment)
next
  case False
  then have "map_of c (property_key (map_option up (cmd p))) = None"
    by (simp add: hasOwnProperty_def map_of_eq_None_iff)
  with False show ?thesis by (auto simp: count_policy_def Let_def)
qed

lemma map_of_foldl_count_policy:
  "map_of (foldl (count_policy up) c ps) x =
     map_option (\<lambda>v. v + length (filter (\<lambda>p. property_key (map_option up (cmd p)) = x) ps))
       (map_of c x)"
proof (induction ps arbitrary: c)
  case Nil
  then show ?case by (simp add: option.map_ident)
next
  case (Cons p ps)
  show ?case
    by (cases "map_of c x") (auto simp: Cons.IH map_of_count_policy)
qed

lemma property_key_bucket:
  "x \<in> set four_buckets \<Longrightarrow> (property_key (map_option up c) = x) = (map_option up c = Some x)"
  by (cases c) (auto simp: property_key_def four_buckets_def)

lemma count_policies_bucket:
  assumes "x \<in> set four_buckets"
  shows "map_of (count_policies up ps) x = Some (length (filter (recognized up x) ps))"
proof -
  have init: "map_of policyCounts_init x = Some 0"
    using assms by (auto simp: policyCounts_init_def four_buckets_def)
  have pred: "(\<lambda>p. property_key (map_option up (cmd p)) = x) = recognized up x"
    by (rule ext) (simp only: property_key_bucket[OF assms] recognized_def)
  show ?thesis
    by (simp only: count_policies_def map_of_foldl_count_policy init pred option.map add_0)
qed

lemma count_policies_keys: "map fst (count_policies up ps) = four_buckets"
  by (simp add: count_policies_def foldl_count_policy_keys policyCounts_init_def
        four_buckets_def)

lemma entry_well_tallied: "well_tallied up (rls_table_entry up t en ps)"
  unfolding well_tallied_def list_all_iff
  by (simp add: rls_table_entry_def count_policies_bucket count_policies_keys)

lemma entry_name [simp]: "name (rls_table_entry up t en ps) = t"
  by (simp add: rls_table_entry_def)

lemma entry_enabled [simp]: "rls_enabled (rls_table_entry up t en ps) = en"
  by (simp add: rls_table_entry_def)

lemma rls_loop_pushed:
  "rls_loop up pool ts = (ex, pushed, allHave, fx) \<Longrightarrow>
     list_all (well_tallied up) pushed
     \<and> (ex = None \<longrightarrow> map name pushed = ts \<and> allHave = list_all rls_enabled pushed)"
proof (induction ts arbitrary: ex pushed allHave fx)
  case Nil
  then show ?case by simp
next
  case (Cons t ts)
  show ?case
  proof (cases "pg_class_relrowsecurity pool t")
    case (Inl e)
    with Cons.prems show ?thesis by auto
  next
    case rows: (Inr rows)
    show ?thesis
    proof (cases "pg_policies_where pool t")
      case (Inl e)
      with Cons.prems rows show ?thesis by (auto simp: Let_def)
    next
      case (Inr ps)
      obtain ex' pushed' allHave' fx' where rec: "rls_loop up pool ts = (ex', pushed', allHave', fx')"
        by (cases "rls_loop up pool ts") auto
      from Cons.IH[OF rec] Cons.prems rows Inr rec show ?thesis
        by (auto simp: Let_def entry_well_tallied)
    qed
  qed
qed

lemma rls_loop_answered:
  "list_all (\<lambda>t. \<not> isl (pg_class_relrowsecurity pool t) \<and> \<not> isl (pg_policies_where pool t)) ts \<Longrightarrow>
     fst (rls_loop up pool ts) = None"
proof (induction ts)
  case Nil
  then show ?case by simp
next
  case (Cons t ts)
  then show ?case
    by (cases "pg_class_relrowsecurity pool t"; cases "pg_policies_where pool t";
        cases "rls_loop up pool ts") (auto simp: Let_def)
qed

lemma runRLSCheck_cases:
  assumes "runRLSCheck up pool_of cs = (r, fx)"
  shows "(\<exists>e. error r = Some (err_message e) \<and> overallStatus r = ''ERROR''
              \<and> (pg_tables_public (pool_of cs) = Inl e \<and> tables r = []
                 \<or> (\<exists>ts pushed ah fx2. pg_tables_public (pool_of cs) = Inr ts \<and> ts \<noteq> []
                      \<and> rls_loop up (pool_of cs) ts = (Some e, pushed, ah, fx2) \<and> tables r = pushed)))
       \<or> (pg_tables_public (pool_of cs) = Inr [] \<and> error r = None \<and> tables r = []
           \<and> overallStatus r = ''N/A'' \<and> message r = Some ''No tables found in public schema.'')
       \<or> (\<exists>ts pushed ah fx2. pg_tables_public (pool_of cs) = Inr ts \<and> ts \<noteq> []
            \<and> rls_loop up (pool_of cs) ts = (None, pushed, ah, fx2)
            \<and> error r = None \<and> tables r = pushed
            \<and> overallStatus r = (if ah then ''PASSING'' else ''FAILING''))"
proof (cases "pg_tables_public (pool_of cs)")
  case (Inl e)
  with assms show ?thesis
    by (auto simp: runRLSCheck_def Let_def rls_catch_def rlsResults_init_def)
next
  case (Inr ts)
  show ?thesis
  proof (cases "ts = []")
    case True
    with assms Inr show ?thesis
      by (auto simp: runRLSCheck_def Let_def rlsResults_init_def)
  next
    case False
    obtain ex pushed ah fx2 where l: "rls_loop up (pool_of cs) ts = (ex, pushed, ah, fx2)"
      by (cases "rls_loop up (pool_of cs) ts") auto
    show ?thesis
    proof (cases ex)
      case None
      with assms Inr False l show ?thesis
        by (auto simp: runRLSCheck_def Let_def rlsResults_init_def)
    next
      case (Some e)
      with assms Inr False l show ?thesis
        by (auto simp: runRLSCheck_def Let_def rls_catch_def rlsResults_init_def)
    qed
  qed
qed

text \<open>
  Claim C2. For every result of the access-control check: each listed table carries a tally
  with exactly the four buckets SELECT, INSERT, UPDATE, DELETE, counting the policy rows of
  that command kind and no other row, and a remediation hint exactly when its flag is
  false; PASSING is reported only for a non-empty list of tables that all have the flag;
  when no query failed, a non-empty list is PASSING exactly when every listed table has
  the flag and FAILING otherwise, and an empty list is N/A with a message; and when the
  pool answers every query, whatever the command kinds of the policy rows are, no error
  is reported and the listed tables are the tables of the schema, in order.
\<close>

theorem rls_status_invariant:
  assumes run: "runRLSCheck up pool_of connectionString = (r, fx)"
  shows "list_all (well_tallied up) (tables r)
       \<and> (overallStatus r = ''PASSING'' \<longrightarrow> tables r \<noteq> [] \<and> list_all rls_enabled (tables r))
       \<and> (error r = None \<and> tables r \<noteq> [] \<longrightarrow>
            (overallStatus r = ''PASSING'' \<longleftrightarrow> list_all rls_enabled (tables r))
            \<and> (overallStatus r = ''FAILING'' \<longleftrightarrow> \<not> list_all rls_enabled (tables r)))
       \<and> (error r = None \<and> tables r = [] \<longrightarrow>
            overallStatus r = ''N/A'' \<and> message r = Some ''No tables found in public schema.'')
       \<and> (all_queries_answered (pool_of connectionString) \<longrightarrow>
            error r = None \<and> pg_tables_public (pool_of connectionString) = Inr (map name (tables r)))"
proof -
  note c = runRLSCheck_cases[OF run]
  have wt: "list_all (well_tallied up) (tables r)"
    using c by (auto dest: rls_loop_pushed)
  have pass: "overallStatus r = ''PASSING'' \<longrightarrow> tables r \<noteq> [] \<and> list_all rls_enabled (tables r)"
    using c by (auto dest!: rls_loop_pushed split: if_splits)
  have ne: "error r = None \<and> tables r \<noteq> [] \<longrightarrow>
            (overallStatus r = ''PASSING'' \<longleftrightarrow> list_all rls_enabled (tables r))
            \<and> (overallStatus r = ''FAILING'' \<longleftrightarrow> \<not> list_all rls_enabled (tables r))"
    using c by (auto dest!: rls_loop_pushed split: if_splits)
  have em: "error r = None \<and> tables r = [] \<longrightarrow>
            overallStatus r = ''N/A'' \<and> message r = Some ''No tables found in public schema.''"
    using c by (auto dest!: rls_loop_pushed split: if_splits)
  have ans: "all_queries_answered (pool_of connectionString) \<longrightarrow>
            error r = None \<and> pg_tables_public (pool_of connectionString) = Inr (map name (tables r))"
  proof
    assume a: "all_queries_answered (pool_of connectionString)"
    then obtain ts where ts: "pg_tables_public (pool_of connectionString) = Inr ts"
      and al: "list_all (\<lambda>t. \<not> isl (pg_class_relrowsecurity (pool_of connectionString) t)
                               \<and> \<not> isl (pg_policies_where (pool_of connectionString) t)) ts"
      by (auto simp: all_queries_answered_def split: sum.splits)
    from rls_loop_answered[OF al, of up] c ts
    show "error r = None \<and> pg_tables_public (pool_of connectionString) = Inr (map name (tables r))"
      by (auto dest: rls_loop_pushed)
  qed
  show ?thesis using wt pass ne em ans by blast
qed

theorem rls_status_invariant_witness:
  "overallStatus (fst (runRLSCheck ascii_upper (\<lambda>c. pool_mixed) (Some ''postgres://db''))) = ''FAILING''
   \<and> list_all (well_tallied ascii_upper)
        (tables (fst (runRLSCheck ascii_upper (\<lambda>c. pool_mixed) (Some ''postgres://db''))))
   \<and> overallStatus (fst (runRLSCheck ascii_upper (\<lambda>c. pool_empty) (Some ''postgres://db''))) = ''N/A''
   \<and> list_all rls_enabled
        (tables (fst (runRLSCheck ascii_upper (\<lambda>c. pool_secured) (Some ''postgres://db''))))"
proof -
  let ?a = "runRLSCheck ascii_upper (\<lambda>c. pool_mixed) (Some ''postgres://db'')"
  let ?b = "runRLSCheck ascii_upper (\<lambda>c. pool_empty) (Some ''postgres://db'')"
  let ?c = "runRLSCheck ascii_upper (\<lambda>c. pool_secured) (Some ''postgres://db'')"
  have a: "error (fst ?a) = None" "map rls_enabled (tables (fst ?a)) = [False, True]"
    by code_simp+
  have b: "error (fst ?b) = None" "tables (fst ?b) = []"
    by code_simp+
  have c: "overallStatus (fst ?c) = ''PASSING''"
    by code_simp
  have qa: "all_queries_answered pool_mixed"
    by (simp add: all_queries_answered_def pool_mixed_def)
  from a(2) have a': "tables (fst ?a) \<noteq> []" "\<not> list_all rls_enabled (tables (fst ?a))"
    by (auto simp: list_all_iff)
  from rls_status_invariant[of _ _ _ "fst ?a" "snd ?a", OF prod.collapse[symmetric]]
       rls_status_invariant[of _ _ _ "fst ?b" "snd ?b", OF prod.collapse[symmetric]]
       rls_status_invariant[of _ _ _ "fst ?c" "snd ?c", OF prod.collapse[symmetric]]
  show ?thesis
    using a(1) a' b c qa by simp
qed

section \<open>Properties of the run-checks handler\<close>

lemma getSupabaseClient_ok:
  assumes "\<not> falsy url" "\<not> falsy key"
      and "startsWith (the url) ''http://'' \<or> startsWith (the url) ''https://''"
  shows "getSupabaseClient w url key =
           (createClient w (the url) (the key), [CreateClient (the url) (the key)])"
  using assms by (auto simp: getSupabaseClient_def)

lemma run_checks_report:
  assumes "\<not> falsy (projectUrl b)" "\<not> falsy (serviceKey b)"
      and "startsWith (the (projectUrl b)) ''http://'' \<or> startsWith (the (projectUrl b)) ''https://''"
      and "createClient w (the (projectUrl b)) (the (serviceKey b)) = Inr supabase"
  shows "fst (run_checks w b) =
           Reply 200 (ReportBody
             (fst (runMFACheck (listUsers supabase) (displayUrl_of (the (projectUrl b)))))
             (fst (runRLSCheck (toUpperCase w) (newPool w) (dbConnectionString b)))
             (fst (runPITR (toLowerCase w) (MANAGEMENT_ACCESS_TOKEN w) (fetch_projects w)
                     (displayUrl_of (the (projectUrl b))))))"
proof -
  have g: "getSupabaseClient w (Some (the (projectUrl b))) (Some (the (serviceKey b))) =
             (Inr supabase, [CreateClient (the (projectUrl b)) (the (serviceKey b))])"
    using assms by (auto simp: getSupabaseClient_def falsy_def split: option.splits)
  show ?thesis
    using assms(1,2) by (simp add: run_checks_def Let_def g split_beta)
qed

lemma mfa_error_preserved:
  assumes "lu = Inl e \<or> (\<exists>resp. lu = Inr resp \<and> usersError resp = Some e)"
  shows "overallStatus (fst (runMFACheck lu d)) = ''ERROR''
       \<and> error (fst (runMFACheck lu d))
           = Some (if err_message e \<noteq> [] then err_message e else err_json e)"
  using assms by (auto simp: runMFACheck_fst mfa_catch_fst)

lemma rls_loop_first_rejection: "fst (rls_loop up pool ts) = first_rejection_in pool ts"
proof (induction ts)
  case Nil
  then show ?case by simp
next
  case (Cons t ts)
  then show ?case
    by (cases "pg_class_relrowsecurity pool t"; cases "pg_policies_where pool t";
        cases "rls_loop up pool ts") (auto simp: Let_def)
qed

lemma rls_error_preserved:
  assumes "runRLSCheck up pool_of cs = (r, fx)"
  shows "case first_rejection (pool_of cs) of
           Some e \<Rightarrow> overallStatus r = ''ERROR'' \<and> error r = Some (err_message e)
         | None \<Rightarrow> overallStatus r \<noteq> ''ERROR'' \<and> error r = None"
proof -
  note c = runRLSCheck_cases[OF assms]
  show ?thesis
    using c
    by (auto simp: first_rejection_def rls_loop_first_rejection[of up, symmetric]
          split: if_splits)
qed

lemma mfa_no_error:
  assumes "lu = Inr resp" "usersError resp = None"
  shows "overallStatus (fst (runMFACheck lu d)) \<noteq> ''ERROR'' \<and> error (fst (runMFACheck lu d)) = None"
  using assms
  by (auto simp: runMFACheck_fst mfa_aggregate_status mfa_aggregate_def mfaResults_init_def
        split: option.splits)

lemma includes_str_splice: "includes_str (a @ p @ c) p"
proof (induction a)
  case Nil
  have s: "startsWith (p @ c) p"
    by (simp add: startsWith_def)
  show ?case
  proof (cases "p @ c")
    case Nil
    then show ?thesis by simp
  next
    case (Cons x xs)
    with s show ?thesis by simp
  qed
next
  case (Cons x a)
  then show ?case by simp
qed

lemma pitr_catch_fst:
  "fst (pitr_catch d e) = pitrResults_init\<lparr>status := ''ERROR'', pitr_message := err_message e\<rparr>"
  by (simp add: pitr_catch_def)

lemma pitr_report_status:
  "status (fst (pitr_report lo d ps)) = ''PASSING'' \<or> status (fst (pitr_report lo d ps)) = ''FAILING''"
  by (simp add: pitr_report_def Let_def)

lemma pitr_no_token:
  "falsy token \<Longrightarrow>
     status (fst (runPITR lo token fp d)) = ''ERROR''
     \<and> pitr_message (fst (runPITR lo token fp d))
         = ''Management API token (SUPABASE_PAT) is not configured''"
  by (simp add: runPITR_def pitr_catch_fst new_Error_def)

lemma pitr_fetch_rejected:
  "\<not> falsy token \<Longrightarrow> fp projects_url (bearer_headers (the token)) = Inl e \<Longrightarrow>
     status (fst (runPITR lo token fp d)) = ''ERROR''
     \<and> pitr_message (fst (runPITR lo token fp d)) = err_message e"
  by (simp add: runPITR_def Let_def pitr_catch_fst split_beta projects_url_def)

lemma pitr_text_rejected:
  "\<not> falsy token \<Longrightarrow> fp projects_url (bearer_headers (the token)) = Inr res \<Longrightarrow>
   \<not> ok res \<Longrightarrow> res_text res = Inl e \<Longrightarrow>
     status (fst (runPITR lo token fp d)) = ''ERROR''
     \<and> pitr_message (fst (runPITR lo token fp d)) = err_message e"
  by (simp add: runPITR_def Let_def pitr_catch_fst split_beta projects_url_def)

lemma pitr_not_ok:
  assumes "\<not> falsy token" "fp projects_url (bearer_headers (the token)) = Inr res"
      and "\<not> ok res" "res_text res = Inr errorText"
  shows "status (fst (runPITR lo token fp d)) = ''ERROR''
     \<and> pitr_message (fst (runPITR lo token fp d))
         = ''Failed to fetch projects: '' @ string_of_nat (res_status res) @ '' '' @ errorText
     \<and> includes_str (pitr_message (fst (runPITR lo token fp d))) (string_of_nat (res_status res))"
proof -
  have s: "status (fst (runPITR lo token fp d)) = ''ERROR''"
    and m: "pitr_message (fst (runPITR lo token fp d))
         = ''Failed to fetch projects: '' @ string_of_nat (res_status res) @ '' '' @ errorText"
    using assms
    by (simp_all add: runPITR_def Let_def pitr_catch_fst split_beta projects_url_def new_Error_def)
  have i: "includes_str
             (''Failed to fetch projects: '' @ string_of_nat (res_status res) @ '' '' @ errorText)
             (string_of_nat (res_status res))"
    by (rule includes_str_splice)
  show ?thesis
    by (simp only: s m i simp_thms)
qed

lemma pitr_json_rejected:
  "\<not> falsy token \<Longrightarrow> fp projects_url (bearer_headers (the token)) = Inr res \<Longrightarrow>
   ok res \<Longrightarrow> res_json res = Inl e \<Longrightarrow>
     status (fst (runPITR lo token fp d)) = ''ERROR''
     \<and> pitr_message (fst (runPITR lo token fp d)) = err_message e"
  by (simp add: runPITR_def Let_def pitr_catch_fst split_beta projects_url_def)

lemma pitr_listed:
  "\<not> falsy token \<Longrightarrow> fp projects_url (bearer_headers (the token)) = Inr res \<Longrightarrow>
   ok res \<Longrightarrow> res_json res = Inr ps \<Longrightarrow>
     status (fst (runPITR lo token fp d)) \<noteq> ''ERROR''"
  using pitr_report_status[of lo d ps]
  by (auto simp: runPITR_def Let_def split_beta projects_url_def)

lemma pitr_paths:
  "(falsy token \<longrightarrow>
        status (fst (runPITR lo token fp d)) = ''ERROR''
        \<and> pitr_message (fst (runPITR lo token fp d))
            = ''Management API token (SUPABASE_PAT) is not configured'')
   \<and> (\<not> falsy token \<longrightarrow>
        (\<forall>e. fp projects_url (bearer_headers (the token)) = Inl e \<longrightarrow>
           status (fst (runPITR lo token fp d)) = ''ERROR''
           \<and> pitr_message (fst (runPITR lo token fp d)) = err_message e)
      \<and> (\<forall>res. fp projects_url (bearer_headers (the token)) = Inr res \<longrightarrow>
           (\<not> ok res \<longrightarrow>
              (\<forall>e. res_text res = Inl e \<longrightarrow>
                 status (fst (runPITR lo token fp d)) = ''ERROR''
                 \<and> pitr_message (fst (runPITR lo token fp d)) = err_message e)
            \<and> (\<forall>errorText. res_text res = Inr errorText \<longrightarrow>
                 status (fst (runPITR lo token fp d)) = ''ERROR''
                 \<and> pitr_message (fst (runPITR lo token fp d))
                     = ''Failed to fetch projects: '' @ string_of_nat (res_status res) @
                       '' '' @ errorText
                 \<and> includes_str (pitr_message (fst (runPITR lo token fp d)))
                      (string_of_nat (res_status res))))
         \<and> (ok res \<longrightarrow>
              (\<forall>e. res_json res = Inl e \<longrightarrow>
                 status (fst (runPITR lo token fp d)) = ''ERROR''
                 \<and> pitr_message (fst (runPITR lo token fp d)) = err_message e)
            \<and> (\<forall>ps. res_json res = Inr ps \<longrightarrow>
                 status (fst (runPITR lo token fp d)) \<noteq> ''ERROR''))))"
proof (intro conjI impI allI)
  assume "falsy token"
  from pitr_no_token[OF this, of lo fp d]
  show "status (fst (runPITR lo token fp d)) = ''ERROR''"
    and "pitr_message (fst (runPITR lo token fp d))
            = ''Management API token (SUPABASE_PAT) is not configured''"
    by simp_all
next
  fix e
  assume "\<not> falsy token" "fp projects_url (bearer_headers (the token)) = Inl e"
  from pitr_fetch_rejected[where fp = fp and lo = lo and d = d, OF this]
  show "status (fst (runPITR lo token fp d)) = ''ERROR''"
    and "pitr_message (fst (runPITR lo token fp d)) = err_message e"
    by simp_all
next
  fix res e
  assume "\<not> falsy token" "fp projects_url (bearer_headers (the token)) = Inr res"
    "\<not> ok res" "res_text res = Inl e"
  from pitr_text_rejected[where fp = fp and lo = lo and d = d, OF this]
  show "status (fst (runPITR lo token fp d)) = ''ERROR''"
    and "pitr_message (fst (runPITR lo token fp d)) = err_message e"
    by simp_all
next
  fix res errorText
  assume "\<not> falsy token" "fp projects_url (bearer_headers (the token)) = Inr res"
    "\<not> ok res" "res_text res = Inr errorText"
  note n = pitr_not_ok[where fp = fp and lo = lo and d = d, OF this]
  from n show "status (fst (runPITR lo token fp d)) = ''ERROR''"
    by (rule conjunct1)
  from n show "pitr_message (fst (runPITR lo token fp d))
                 = ''Failed to fetch projects: '' @ string_of_nat (res_status res) @
                   '' '' @ errorText"
    by (elim conjE)
  from n show "includes_str (pitr_message (fst (runPITR lo token fp d)))
                 (string_of_nat (res_status res))"
    by (elim conjE)
next
  fix res e
  assume "\<not> falsy token" "fp projects_url (bearer_headers (the token)) = Inr res"
    "ok res" "res_json res = Inl e"
  from pitr_json_rejected[where fp = fp and lo = lo and d = d, OF this]
  show "status (fst (runPITR lo token fp d)) = ''ERROR''"
    and "pitr_message (fst (runPITR lo token fp d)) = err_message e"
    by simp_all
next
  fix res ps
  assume "\<not> falsy token" "fp projects_url (bearer_headers (the token)) = Inr res"
    "ok res" "res_json res = Inr ps"
  from pitr_listed[where fp = fp and lo = lo and d = d, OF this]
  show "status (fst (runPITR lo token fp d)) \<noteq> ''ERROR''" .
qed

text \<open>
  Claim C3, as amended. For a request with both credentials, an endpoint with a scheme and
  a client that could be built, the reply to run-checks has status 200 and holds all three
  result records, each of them the result of its own check on its own upstream answers
  only. A check turns every exception raised inside it into an ERROR record carrying that
  exception's message, and reports no error otherwise: the MFA record carries the message
  of the failed listing (its JSON form when the message is empty), the access-control
  record the message of the first query that was rejected, and the recovery record the
  message of the missing token, of the failed request, of the unreadable body or, for a
  non-success HTTP status, a message that contains the status code and the body.
\<close>

theorem checks_are_fault_boundaries:
  assumes url: "\<not> falsy (projectUrl b)" and key: "\<not> falsy (serviceKey b)"
      and scheme: "startsWith (the (projectUrl b)) ''http://''
                   \<or> startsWith (the (projectUrl b)) ''https://''"
      and made: "createClient w (the (projectUrl b)) (the (serviceKey b)) = Inr supabase"
  shows "\<exists>m r p.
           fst (run_checks w b) = Reply 200 (ReportBody m r p)
         \<and> m = fst (runMFACheck (listUsers supabase) (displayUrl_of (the (projectUrl b))))
         \<and> r = fst (runRLSCheck (toUpperCase w) (newPool w) (dbConnectionString b))
         \<and> p = fst (runPITR (toLowerCase w) (MANAGEMENT_ACCESS_TOKEN w) (fetch_projects w)
                      (displayUrl_of (the (projectUrl b))))
         \<and> (\<forall>e. listUsers supabase = Inl e
                  \<or> (\<exists>resp. listUsers supabase = Inr resp \<and> usersError resp = Some e) \<longrightarrow>
                overallStatus m = ''ERROR''
                \<and> error m = Some (if err_message e \<noteq> [] then err_message e else err_json e))
         \<and> ((\<exists>resp. listUsers supabase = Inr resp \<and> usersError resp = None) \<longrightarrow>
                overallStatus m \<noteq> ''ERROR'' \<and> error m = None)
         \<and> (case first_rejection (newPool w (dbConnectionString b)) of
               Some e \<Rightarrow> overallStatus r = ''ERROR'' \<and> error r = Some (err_message e)
             | None \<Rightarrow> overallStatus r \<noteq> ''ERROR'' \<and> error r = None)
         \<and> (falsy (MANAGEMENT_ACCESS_TOKEN w) \<longrightarrow>
                status p = ''ERROR''
                \<and> pitr_message p = ''Management API token (SUPABASE_PAT) is not configured'')
         \<and> (\<not> falsy (MANAGEMENT_ACCESS_TOKEN w) \<longrightarrow>
              (\<forall>e. fetch_projects w projects_url
                      (bearer_headers (the (MANAGEMENT_ACCESS_TOKEN w))) = Inl e \<longrightarrow>
                 status p = ''ERROR'' \<and> pitr_message p = err_message e)
            \<and> (\<forall>res. fetch_projects w projects_url
                        (bearer_headers (the (MANAGEMENT_ACCESS_TOKEN w))) = Inr res \<longrightarrow>
                 (\<not> ok res \<longrightarrow>
                    (\<forall>e. res_text res = Inl e \<longrightarrow>
                       status p = ''ERROR'' \<and> pitr_message p = err_message e)
                  \<and> (\<forall>errorText. res_text res = Inr errorText \<longrightarrow>
                       status p = ''ERROR''
                       \<and> pitr_message p
                           = ''Failed to fetch projects: '' @ string_of_nat (res_status res) @
                             '' '' @ errorText
                       \<and> includes_str (pitr_message p) (string_of_nat (res_status res))))
               \<and> (ok res \<longrightarrow>
                    (\<forall>e. res_json res = Inl e \<longrightarrow>
                       status p = ''ERROR'' \<and> pitr_message p = err_message e)
                  \<and> (\<forall>ps. res_json res = Inr ps \<longrightarrow> status p \<noteq> ''ERROR''))))"
proof -
  let ?d = "displayUrl_of (the (projectUrl b))"
  let ?m = "fst (runMFACheck (listUsers supabase) ?d)"
  let ?r = "fst (runRLSCheck (toUpperCase w) (newPool w) (dbConnectionString b))"
  let ?p = "fst (runPITR (toLowerCase w) (MANAGEMENT_ACCESS_TOKEN w) (fetch_projects w) ?d)"
  have rep: "fst (run_checks w b) = Reply 200 (ReportBody ?m ?r ?p)"
    by (rule run_checks_report[OF url key scheme made])
  have mfa: "\<forall>e. listUsers supabase = Inl e
                  \<or> (\<exists>resp. listUsers supabase = Inr resp \<and> usersError resp = Some e) \<longrightarrow>
                overallStatus ?m = ''ERROR''
                \<and> error ?m = Some (if err_message e \<noteq> [] then err_message e else err_json e)"
    using mfa_error_preserved[of "listUsers supabase" _ ?d] by blast
  have mfa': "(\<exists>resp. listUsers supabase = Inr resp \<and> usersError resp = None) \<longrightarrow>
                overallStatus ?m \<noteq> ''ERROR'' \<and> error ?m = None"
    using mfa_no_error[of "listUsers supabase" _ ?d] by blast
  have rls: "case first_rejection (newPool w (dbConnectionString b)) of
               Some e \<Rightarrow> overallStatus ?r = ''ERROR'' \<and> error ?r = Some (err_message e)
             | None \<Rightarrow> overallStatus ?r \<noteq> ''ERROR'' \<and> error ?r = None"
    by (rule rls_error_preserved[OF prod.collapse[symmetric]])
  note pitr = pitr_paths[of "MANAGEMENT_ACCESS_TOKEN w" "toLowerCase w" "fetch_projects w" ?d]
  show ?thesis
    apply (rule exI[of _ ?m], rule exI[of _ ?r], rule exI[of _ ?p])
    using rep mfa mfa' rls pitr
    by - (elim conjE, intro conjI refl; assumption)
qed

theorem checks_are_fault_boundaries_witness:
  "fst (run_checks world_failing request_ok) =
     Reply 200 (ReportBody
       (fst (runMFACheck (listUsers client_down) (displayUrl_of (the (projectUrl request_ok)))))
       (fst (runRLSCheck (toUpperCase world_failing) (newPool world_failing)
               (dbConnectionString request_ok)))
       (fst (runPITR (toLowerCase world_failing) (MANAGEMENT_ACCESS_TOKEN world_failing)
               (fetch_projects world_failing) (displayUrl_of (the (projectUrl request_ok))))))
   \<and> overallStatus (fst (runMFACheck (listUsers client_down) (displayUrl_of (the (projectUrl request_ok))))) = ''ERROR''
   \<and> error (fst (runMFACheck (listUsers client_down) (displayUrl_of (the (projectUrl request_ok))))) = Some ''fetch failed''
   \<and> overallStatus (fst (runRLSCheck (toUpperCase world_failing) (newPool world_failing)
               (dbConnectionString request_ok))) = ''ERROR''
   \<and> error (fst (runRLSCheck (toUpperCase world_failing) (newPool world_failing)
               (dbConnectionString request_ok))) = Some ''connect ECONNREFUSED 127.0.0.1:5432''
   \<and> status (fst (runPITR (toLowerCase world_failing) (MANAGEMENT_ACCESS_TOKEN world_failing)
               (fetch_projects world_failing) (displayUrl_of (the (projectUrl request_ok))))) = ''ERROR''
   \<and> pitr_message (fst (runPITR (toLowerCase world_failing) (MANAGEMENT_ACCESS_TOKEN world_failing)
               (fetch_projects world_failing) (displayUrl_of (the (projectUrl request_ok))))) = ''Failed to fetch projects: 403 Forbidden''
   \<and> status (fst (runPITR (toLowerCase world_no_token) (MANAGEMENT_ACCESS_TOKEN world_no_token)
               (fetch_projects world_no_token) (displayUrl_of (the (projectUrl request_ok))))) = ''ERROR''
   \<and> pitr_message (fst (runPITR (toLowerCase world_bad_json) (MANAGEMENT_ACCESS_TOKEN world_bad_json)
               (fetch_projects world_bad_json) (displayUrl_of (the (projectUrl request_ok)))))
       = ''Unexpected token < in JSON at position 0''
   \<and> pitr_message (fst (runPITR (toLowerCase world_bad_text) (MANAGEMENT_ACCESS_TOKEN world_bad_text)
               (fetch_projects world_bad_text) (displayUrl_of (the (projectUrl request_ok)))))
       = ''Premature close''
   \<and> overallStatus (fst (runMFACheck (listUsers client_ok) (displayUrl_of (the (projectUrl request_ok))))) \<noteq> ''ERROR''
   \<and> overallStatus (fst (runRLSCheck (toUpperCase world_ok) (newPool world_ok)
               (dbConnectionString request_ok))) \<noteq> ''ERROR''
   \<and> status (fst (runPITR (toLowerCase world_ok) (MANAGEMENT_ACCESS_TOKEN world_ok)
               (fetch_projects world_ok) (displayUrl_of (the (projectUrl request_ok))))) \<noteq> ''ERROR''"
proof -
  let ?d = "displayUrl_of (the (projectUrl request_ok))"
  have url: "\<not> falsy (projectUrl request_ok)" and key: "\<not> falsy (serviceKey request_ok)"
    by (simp_all add: request_ok_def falsy_def)
  have scheme: "startsWith (the (projectUrl request_ok)) ''http://''
                \<or> startsWith (the (projectUrl request_ok)) ''https://''"
    by (simp add: request_ok_def startsWith_def)
  have made: "createClient world_failing (the (projectUrl request_ok))
                (the (serviceKey request_ok)) = Inr client_down"
    "createClient world_no_token (the (projectUrl request_ok))
                (the (serviceKey request_ok)) = Inr client_ok"
    "createClient world_bad_json (the (projectUrl request_ok))
                (the (serviceKey request_ok)) = Inr client_ok"
    "createClient world_bad_text (the (projectUrl request_ok))
                (the (serviceKey request_ok)) = Inr client_ok"
    "createClient world_ok (the (projectUrl request_ok))
                (the (serviceKey request_ok)) = Inr client_ok"
    by (simp_all add: world_failing_def world_forbidden_def world_no_token_def world_bad_json_def
          world_bad_text_def world_ok_def)
  have lu: "listUsers client_down = Inl (new_Error ''fetch failed'')"
    and lu': "\<exists>resp. listUsers client_ok = Inr resp \<and> usersError resp = None"
    by (simp_all add: client_down_def client_ok_def)
  have token: "\<not> falsy (MANAGEMENT_ACCESS_TOKEN world_failing)"
    "\<not> falsy (MANAGEMENT_ACCESS_TOKEN world_bad_json)"
    "\<not> falsy (MANAGEMENT_ACCESS_TOKEN world_bad_text)"
    "\<not> falsy (MANAGEMENT_ACCESS_TOKEN world_ok)"
    and no_token: "falsy (MANAGEMENT_ACCESS_TOKEN world_no_token)"
    by (simp_all add: world_failing_def world_forbidden_def world_ok_def world_no_token_def
          world_bad_json_def world_bad_text_def falsy_def)
  have res: "fetch_projects world_failing projects_url
               (bearer_headers (the (MANAGEMENT_ACCESS_TOKEN world_failing)))
             = Inr \<lparr>ok = False, res_status = 403, res_text = Inr ''Forbidden'',
                    res_json = Inl (new_Error ''Unexpected token'')\<rparr>"
    by (simp add: world_failing_def world_forbidden_def)
  have res_json: "fetch_projects world_bad_json projects_url
               (bearer_headers (the (MANAGEMENT_ACCESS_TOKEN world_bad_json)))
             = Inr \<lparr>ok = True, res_status = 200, res_text = Inr ''<html>'',
                    res_json = Inl (new_Error ''Unexpected token < in JSON at position 0'')\<rparr>"
    by (simp add: world_bad_json_def)
  have res_text: "fetch_projects world_bad_text projects_url
               (bearer_headers (the (MANAGEMENT_ACCESS_TOKEN world_bad_text)))
             = Inr \<lparr>ok = False, res_status = 502, res_text = Inl (new_Error ''Premature close''),
                    res_json = Inl (new_Error ''Premature close'')\<rparr>"
    by (simp add: world_bad_text_def)
  have res_ok: "fetch_projects world_ok projects_url
               (bearer_headers (the (MANAGEMENT_ACCESS_TOKEN world_ok)))
             = Inr \<lparr>ok = True, res_status = 200, res_text = Inr ''[]'',
                    res_json = Inr [project_with_pitr]\<rparr>"
    by (simp add: world_ok_def)
  have n: "string_of_nat 403 = ''403''"
    by code_simp
  have refused: "first_rejection (newPool world_failing (dbConnectionString request_ok))
                  = Some (new_Error ''connect ECONNREFUSED 127.0.0.1:5432'')"
    by (simp add: first_rejection_def world_failing_def pool_refusing_def)
  have answered: "first_rejection (newPool world_ok (dbConnectionString request_ok)) = None"
    by (simp add: first_rejection_def world_ok_def pool_mixed_def)
  note F = checks_are_fault_boundaries[OF url key scheme made(1)]
  note N = checks_are_fault_boundaries[OF url key scheme made(2)]
  note J = checks_are_fault_boundaries[OF url key scheme made(3)]
  note X = checks_are_fault_boundaries[OF url key scheme made(4)]
  note K = checks_are_fault_boundaries[OF url key scheme made(5)]
  from F have rep: "fst (run_checks world_failing request_ok) =
     Reply 200 (ReportBody
       (fst (runMFACheck (listUsers client_down) ?d))
       (fst (runRLSCheck (toUpperCase world_failing) (newPool world_failing)
               (dbConnectionString request_ok)))
       (fst (runPITR (toLowerCase world_failing) (MANAGEMENT_ACCESS_TOKEN world_failing)
               (fetch_projects world_failing) ?d)))"
    by blast
  from F lu have m: "overallStatus (fst (runMFACheck (listUsers client_down) ?d)) = ''ERROR''"
    "error (fst (runMFACheck (listUsers client_down) ?d)) = Some ''fetch failed''"
    by (auto simp: new_Error_def)
  from F refused have r: "overallStatus (fst (runRLSCheck (toUpperCase world_failing)
        (newPool world_failing) (dbConnectionString request_ok))) = ''ERROR''"
    "error (fst (runRLSCheck (toUpperCase world_failing)
        (newPool world_failing) (dbConnectionString request_ok)))
       = Some ''connect ECONNREFUSED 127.0.0.1:5432''"
    by (auto simp: new_Error_def)
  from F token(1) res n have p: "status (fst (runPITR (toLowerCase world_failing)
        (MANAGEMENT_ACCESS_TOKEN world_failing) (fetch_projects world_failing) ?d)) = ''ERROR''"
    "pitr_message (fst (runPITR (toLowerCase world_failing)
        (MANAGEMENT_ACCESS_TOKEN world_failing) (fetch_projects world_failing) ?d))
       = ''Failed to fetch projects: 403 Forbidden''"
    by auto
  from N no_token have p1: "status (fst (runPITR (toLowerCase world_no_token)
               (MANAGEMENT_ACCESS_TOKEN world_no_token)
               (fetch_projects world_no_token) ?d)) = ''ERROR''"
    by blast
  from J token(2) res_json have p2: "pitr_message (fst (runPITR (toLowerCase world_bad_json)
               (MANAGEMENT_ACCESS_TOKEN world_bad_json)
               (fetch_projects world_bad_json) ?d)) = ''Unexpected token < in JSON at position 0''"
    by (auto simp: new_Error_def)
  from X token(3) res_text have p3: "pitr_message (fst (runPITR (toLowerCase world_bad_text)
               (MANAGEMENT_ACCESS_TOKEN world_bad_text)
               (fetch_projects world_bad_text) ?d)) = ''Premature close''"
    by (auto simp: new_Error_def)
  from K lu' have k1: "overallStatus (fst (runMFACheck (listUsers client_ok) ?d)) \<noteq> ''ERROR''"
    by blast
  from K answered have k2: "overallStatus (fst (runRLSCheck (toUpperCase world_ok)
        (newPool world_ok) (dbConnectionString request_ok))) \<noteq> ''ERROR''"
    by auto
  from K token(4) res_ok have k3: "status (fst (runPITR (toLowerCase world_ok)
        (MANAGEMENT_ACCESS_TOKEN world_ok) (fetch_projects world_ok) ?d)) \<noteq> ''ERROR''"
    by auto
  from rep m r p p1 p2 p3 k1 k2 k3 show ?thesis
    by - (intro conjI; assumption)
qed


text \<open>
  Claim C3, as stated, fails in two places. A listing of users that the project answers
  with HTTP status 403 gives an MFA record whose error is the message of the client
  library, "User not allowed", which does not contain 403. And a request that does not
  pass the validation is answered without any of the three records.
\<close>

theorem mfa_forbidden_counterexample:
  "err_status user_not_allowed = Some 403
   \<and> fst (runMFACheck (Inr \<lparr>users = Some [], usersError = Some user_not_allowed\<rparr>)
            ''https://abcdefgh.supabase.co'')
       = \<lparr>checkName = ''Multi-Factor Authentication (MFA)'', overallStatus = ''ERROR'',
          error = Some ''User not allowed'', message = None, mfa_users = []\<rparr>
   \<and> \<not> includes_str ''User not allowed'' ''403''
   \<and> fst (run_checks world_ok request_no_scheme)
       = Reply 500 (ErrorBody
           ''Failed to connect to Supabase or run checks: Invalid Supabase project URL format. It should start with http:// or https://'')"
  by code_simp

section \<open>Where the handlers depart from the specification\<close>

text \<open>
  Claim C5. Without the management token the recovery check is specified to report
  MANUAL_CHECK_REQUIRED. The function starts from a record with that status, but raises
  the missing token as an exception inside its own \<open>try\<close> block, and the \<open>catch\<close> block
  overwrites the status: the result is an ERROR. The only effect is the audit record; no
  request is sent.
\<close>

theorem pitr_without_token:
  "runPITR lo None fp displayUrl =
     (\<lparr>pitr_checkName = ''Point-in-Time Recovery (PITR)'', status = ''ERROR'',
       pitr_message = ''Management API token (SUPABASE_PAT) is not configured'',
       details_projects = None\<rparr>,
      [LogEvidence ''error'' ''PITR check failed''
         (JObj [(''project'', JStr displayUrl),
                (''error'', JStr ''Management API token (SUPABASE_PAT) is not configured'')])])"
  by (simp add: runPITR_def falsy_def pitr_catch_def new_Error_def pitrResults_init_def
        logEvidence_def)

text \<open>
  Claim C6. Without a connection string the access-control check is specified to report an
  ERROR that names the missing input. The function never looks at the connection string:
  it builds the pool from whatever it was given and queries it. Where the pool built from
  no connection string is refused, the record is an ERROR carrying the driver's message;
  where that pool reaches a data store, the check reports on that store and there is no
  error at all. The statement holds for every value of \<open>connectionString\<close>, the absent one
  included.
\<close>

theorem rls_check_without_connection_string:
  "fst (runRLSCheck (toUpperCase world_no_database) (newPool world_no_database)
          connectionString) =
     \<lparr>checkName = ''Row Level Security (RLS)'', overallStatus = ''ERROR'',
      error = Some ''connect ECONNREFUSED 127.0.0.1:5432'', message = None, tables = []\<rparr>
   \<and> overallStatus (fst (runRLSCheck (toUpperCase world_ok) (newPool world_ok)
          connectionString)) = ''FAILING''"
  by code_simp

text \<open>
  Claim C8. For a project whose recovery addon is present, the fix is specified to reply
  with success and an "already enabled" message. The handler writes that message to the
  audit log, then reads the \<open>res\<close> of its \<open>try\<close> block before its declaration: the reply
  is a status 500 carrying the ReferenceError. The only outbound call is the GET that
  reads the project; no PATCH is sent.
\<close>

theorem fix_pitr_already_enabled:
  "fst (fix_pitr world_ok request_ok) =
     Reply 500 (ErrorBody
       ''Failed to enable PITR for project abcdefgh: Cannot access 'res' before initialization'')
   \<and> filter is_outbound (snd (fix_pitr world_ok request_ok)) =
       [Fetch ''https://api.supabase.com/v1/projects/abcdefgh'' ''GET''
          (bearer_headers ''sbp_0123'') None]
   \<and> LogEvidence ''info'' ''PITR is already enabled for project: abcdefgh.''
        (JObj [(''project'', JStr ''https://abcdefgh.supabase.co''),
               (''projectRef'', JStr ''abcdefgh'')])
       \<in> set (snd (fix_pitr world_ok request_ok))"
  by code_simp

text \<open>
  Claim C9. The service key is specified never to reach a log. The run-checks handler
  prints the project URL and the service key on the console before it builds the client.
\<close>

theorem run_checks_logs_service_key:
  "serviceKey request_ok = Some ''service-role-secret''
   \<and> ConsoleLog [JStr ''https://abcdefgh.supabase.co'', JStr ''service-role-secret'']
       \<in> set (snd (run_checks world_ok request_ok))"
  by code_simp

section \<open>Properties of the access-control fix\<close>

lemma double_quotes_Cons:
  "double_quotes (c # s) = (if c = CHR 0x22 then c # c # double_quotes s else c # double_quotes s)"
  by (simp add: double_quotes_def)

lemma double_quotes_Nil [simp]: "double_quotes [] = []"
  by (simp add: double_quotes_def)

lemma length_double_quotes:
  "length (double_quotes s) = length s + length (filter (\<lambda>c. c = CHR 0x22) s)"
  by (induction s) (simp_all add: double_quotes_Cons)

lemma double_quotes_fixed: "double_quotes s = s \<longleftrightarrow> quote_free s"
proof
  assume "double_quotes s = s"
  then have "length (double_quotes s) = length s" by simp
  then have "filter (\<lambda>c. c = CHR 0x22) s = []"
    by (simp add: length_double_quotes)
  then show "quote_free s"
    by (auto simp: quote_free_def filter_empty_conv)
next
  assume "quote_free s"
  then show "double_quotes s = s"
    by (induction s) (auto simp: quote_free_def double_quotes_Cons)
qed

lemma read_quoted_sound:
  "read_quoted s = Some (i, r) \<Longrightarrow> s = double_quotes i @ CHR 0x22 # r \<and> ends_identifier r"
proof (induction s arbitrary: i r rule: read_quoted.induct)
  case 1
  then show ?case by simp
next
  case (2 c)
  then show ?case by (auto simp: ends_identifier_def split: if_splits)
next
  case (3 c d ds)
  show ?case
  proof (cases "c = CHR 0x22")
    case True
    show ?thesis
    proof (cases "d = CHR 0x22")
      case d: True
      with True "3.prems" obtain i' where i': "read_quoted ds = Some (i', r)" "i = CHR 0x22 # i'"
        by auto
      from "3.IH"(1)[OF True d i'(1)] True d i'(2) show ?thesis
        by (simp add: double_quotes_Cons)
    next
      case False
      with True "3.prems" show ?thesis
        by (auto simp: ends_identifier_def)
    qed
  next
    case False
    with "3.prems" obtain i' where i': "read_quoted (d # ds) = Some (i', r)" "i = c # i'"
      by auto
    from "3.IH"(2)[OF False i'(1)] False i'(2) show ?thesis
      by (simp add: double_quotes_Cons)
  qed
qed

lemma read_quoted_complete:
  "ends_identifier r \<Longrightarrow> read_quoted (double_quotes i @ CHR 0x22 # r) = Some (i, r)"
proof (induction i)
  case Nil
  then show ?case by (cases r) (auto simp: ends_identifier_def)
next
  case (Cons c i)
  then have IH: "read_quoted (double_quotes i @ CHR 0x22 # r) = Some (i, r)" by simp
  show ?case
  proof (cases "c = CHR 0x22")
    case True
    then show ?thesis using IH by (simp add: double_quotes_Cons)
  next
    case False
    obtain x xs where x: "double_quotes i @ CHR 0x22 # r = x # xs"
      by (cases "double_quotes i @ CHR 0x22 # r") auto
    with False IH show ?thesis by (simp add: double_quotes_Cons)
  qed
qed

lemma read_quoted_splice:
  assumes "ends_identifier r"
  shows "read_quoted (t @ CHR 0x22 # r) = Some (t, r) \<longleftrightarrow> quote_free t"
proof
  assume "read_quoted (t @ CHR 0x22 # r) = Some (t, r)"
  from read_quoted_sound[OF this] have "t = double_quotes t" by simp
  then show "quote_free t" using double_quotes_fixed by metis
next
  assume "quote_free t"
  then have "double_quotes t = t" by (simp add: double_quotes_fixed)
  with read_quoted_complete[OF assms, of t] show "read_quoted (t @ CHR 0x22 # r) = Some (t, r)"
    by simp
qed

lemma alter_sql_splice: "alter_sql t = alter_prefix @ t @ alter_suffix"
  by (simp add: alter_sql_def alter_prefix_def alter_suffix_def)

lemma create_policy_sql_splice: "create_policy_sql t = create_prefix @ t @ create_suffix"
  by (simp add: create_policy_sql_def create_prefix_def create_suffix_def)

lemma alter_identifier:
  "read_quoted (drop (length alter_prefix) (alter_sql t)) = Some (t, '' ENABLE ROW LEVEL SECURITY;'')
     \<longleftrightarrow> quote_free t"
proof -
  have "drop (length alter_prefix) (alter_sql t) = t @ CHR 0x22 # '' ENABLE ROW LEVEL SECURITY;''"
    by (simp add: alter_sql_splice) (simp add: alter_suffix_def)
  then show ?thesis
    by (simp only: read_quoted_splice[of "'' ENABLE ROW LEVEL SECURITY;''" t, simplified ends_identifier_def, simplified])
qed

lemma create_identifier:
  "read_quoted (drop (length create_prefix) (create_policy_sql t)) = Some (t, '' FOR SELECT USING (true);'')
     \<longleftrightarrow> quote_free t"
proof -
  have "drop (length create_prefix) (create_policy_sql t) = t @ CHR 0x22 # '' FOR SELECT USING (true);''"
    by (simp add: create_policy_sql_splice) (simp add: create_suffix_def)
  then show ?thesis
    by (simp only: read_quoted_splice[of "'' FOR SELECT USING (true);''" t, simplified ends_identifier_def, simplified])
qed

lemma sql_statements_append [simp]:
  "sql_statements (xs @ ys) = sql_statements xs @ sql_statements ys"
  by (simp add: sql_statements_def)

lemma sql_statements_tail [simp]:
  "sql_statements (snd (fix_rls_catch t e)) = []"
  "sql_statements (snd (fix_rls_done d t)) = []"
  by (simp_all add: sql_statements_def fix_rls_catch_def fix_rls_done_def logEvidence_def Let_def)

lemma sql_statements_simps [simp]:
  "sql_statements [] = []"
  "sql_statements (PoolQuery q ps # fx) = PoolQuery q ps # sql_statements fx"
  "sql_statements (NewPool c # fx) = sql_statements fx"
  "sql_statements (PoolEnd # fx) = sql_statements fx"
  "sql_statements (LogEvidence l m d # fx) = sql_statements fx"
  by (simp_all add: sql_statements_def)

lemma fix_rls_statements:
  assumes "\<not> falsy (tableName b)" "\<not> falsy (projectUrl b)" "\<not> falsy (serviceKey b)"
  shows "sql_statements (fst (snd (fix_rls query db b))) =
           (case query db (alter_sql (the (tableName b))) [] of
              (Inl e, db1) \<Rightarrow> [PoolQuery (alter_sql (the (tableName b))) []]
            | (Inr x, db1) \<Rightarrow>
                (case query db1 sql_policies [the (tableName b)] of
                   (Inl e, db2) \<Rightarrow> [PoolQuery (alter_sql (the (tableName b))) [],
                                    PoolQuery sql_policies [the (tableName b)]]
                 | (Inr existing, db2) \<Rightarrow>
                     if existing = [] then
                       [PoolQuery (alter_sql (the (tableName b))) [],
                        PoolQuery sql_policies [the (tableName b)],
                        PoolQuery (create_policy_sql (the (tableName b))) []]
                     else [PoolQuery (alter_sql (the (tableName b))) [],
                           PoolQuery sql_policies [the (tableName b)]]))"
proof -
  let ?t = "the (tableName b)"
  obtain r1 db1 where q1: "query db (alter_sql ?t) [] = (r1, db1)"
    by (cases "query db (alter_sql ?t) []") auto
  obtain r2 db2 where q2: "query db1 sql_policies [?t] = (r2, db2)"
    by (cases "query db1 sql_policies [?t]") auto
  obtain r3 db3 where q3: "query db2 (create_policy_sql ?t) [] = (r3, db3)"
    by (cases "query db2 (create_policy_sql ?t) []") auto
  show ?thesis
    using assms q1 q2 q3
    by (cases r1; cases r2; cases r3)
       (simp_all add: fix_rls_def Let_def split_beta)
qed
















text \<open>
  Claim C10. The only check of \<open>tableName\<close> is its presence: an absent or empty name is
  answered with status 400 and no statement. For every other name, with both credentials
  present, the first statement sent is the flag-enabling template with the name spliced in
  as it is, followed by at most the query on \<open>pg_policies\<close> and the policy-creating
  template with the name spliced in as it is. The quoted identifier that such a statement
  names is the given name, followed by the rest of the template, exactly when the name has
  no double quote: a double quote in the name changes the structure of the statement.
\<close>

theorem fix_rls_splices_table_name:
  assumes url: "\<not> falsy (projectUrl b)" and key: "\<not> falsy (serviceKey b)"
  shows "(falsy (tableName b) \<longrightarrow>
            fst (fix_rls query db b) = Reply 400 (ErrorBody ''Table Name is required.'')
            \<and> sql_statements (fst (snd (fix_rls query db b))) = [])
       \<and> (\<forall>t. tableName b = Some t \<and> t \<noteq> [] \<longrightarrow>
            (\<exists>rest. sql_statements (fst (snd (fix_rls query db b)))
                       = PoolQuery (alter_sql t) [] # rest
                   \<and> (rest = [] \<or> rest = [PoolQuery sql_policies [t]]
                       \<or> rest = [PoolQuery sql_policies [t],
                                  PoolQuery (create_policy_sql t) []]))
            \<and> alter_sql t = alter_prefix @ t @ alter_suffix
            \<and> create_policy_sql t = create_prefix @ t @ create_suffix
            \<and> (quote_free t \<longleftrightarrow>
                 read_quoted (drop (length alter_prefix) (alter_sql t))
                   = Some (t, '' ENABLE ROW LEVEL SECURITY;''))
            \<and> (quote_free t \<longleftrightarrow>
                 read_quoted (drop (length create_prefix) (create_policy_sql t))
                   = Some (t, '' FOR SELECT USING (true);'')))"
proof -
  have absent: "falsy (tableName b) \<longrightarrow>
            fst (fix_rls query db b) = Reply 400 (ErrorBody ''Table Name is required.'')
            \<and> sql_statements (fst (snd (fix_rls query db b))) = []"
    by (simp add: fix_rls_def)
  have present: "\<exists>rest. sql_statements (fst (snd (fix_rls query db b)))
                       = PoolQuery (alter_sql t) [] # rest
                   \<and> (rest = [] \<or> rest = [PoolQuery sql_policies [t]]
                       \<or> rest = [PoolQuery sql_policies [t],
                                  PoolQuery (create_policy_sql t) []])"
    if t: "tableName b = Some t" "t \<noteq> []" for t
  proof -
    from t have nf: "\<not> falsy (tableName b)" by (simp add: falsy_def)
    show ?thesis
      unfolding fix_rls_statements[OF nf url key, of query db]
      using t by (auto split: prod.splits sum.splits)
  qed
  show ?thesis
    using absent present alter_sql_splice create_policy_sql_splice
      alter_identifier create_identifier
    by blast
qed

theorem fix_rls_splices_table_name_witness:
  \<open>alter_sql injected_name =
     ''ALTER TABLE public."x" ENABLE ROW LEVEL SECURITY; DROP TABLE public."orders" ENABLE ROW LEVEL SECURITY;''
   \<and> read_quoted (drop (length alter_prefix) (alter_sql injected_name))
       \<noteq> Some (injected_name, '' ENABLE ROW LEVEL SECURITY;'')
   \<and> read_quoted (drop (length alter_prefix) (alter_sql ''orders''))
       = Some (''orders'', '' ENABLE ROW LEVEL SECURITY;'')
   \<and> hd (sql_statements (fst (snd (fix_rls store_query store_shop
              (request_ok\<lparr>tableName := Some injected_name\<rparr>)))))
       = PoolQuery (alter_sql injected_name) []\<close>
proof -
  let ?b = "request_ok\<lparr>tableName := Some injected_name\<rparr>"
  have url: "\<not> falsy (projectUrl ?b)" and key: "\<not> falsy (serviceKey ?b)"
    by (simp_all add: request_ok_def falsy_def)
  have t: "tableName ?b = Some injected_name" "injected_name \<noteq> []"
    by (simp_all add: injected_name_def)
  have t': "tableName request_ok = Some ''orders''" "''orders'' \<noteq> []"
    by (simp_all add: request_ok_def)
  have url': "\<not> falsy (projectUrl request_ok)" and key': "\<not> falsy (serviceKey request_ok)"
    by (simp_all add: request_ok_def falsy_def)
  have q: "\<not> quote_free injected_name" "quote_free ''orders''"
    by (simp_all add: quote_free_def injected_name_def)
  have a: "alter_prefix @ injected_name @ alter_suffix =
     ''ALTER TABLE public.\"x\" ENABLE ROW LEVEL SECURITY; DROP TABLE public.\"orders\" ENABLE ROW LEVEL SECURITY;''"
    by (simp add: alter_prefix_def alter_suffix_def injected_name_def)
  note T = fix_rls_splices_table_name[OF url key, of store_query store_shop,
             THEN conjunct2, rule_format, OF conjI[OF t]]
  note T' = fix_rls_splices_table_name[OF url' key', of store_query store_shop,
             THEN conjunct2, rule_format, OF conjI[OF t']]
  from T a have c1: "alter_sql injected_name =
     ''ALTER TABLE public.\"x\" ENABLE ROW LEVEL SECURITY; DROP TABLE public.\"orders\" ENABLE ROW LEVEL SECURITY;''"
    by (elim conjE) (erule trans)
  from T q(1) have c2: "read_quoted (drop (length alter_prefix) (alter_sql injected_name))
       \<noteq> Some (injected_name, '' ENABLE ROW LEVEL SECURITY;'')"
    by blast
  from T' q(2) have c3: "read_quoted (drop (length alter_prefix) (alter_sql ''orders''))
       = Some (''orders'', '' ENABLE ROW LEVEL SECURITY;'')"
    by blast
  from T obtain rest where "sql_statements (fst (snd (fix_rls store_query store_shop ?b)))
                       = PoolQuery (alter_sql injected_name) [] # rest"
    by blast
  then have c4: "hd (sql_statements (fst (snd (fix_rls store_query store_shop ?b))))
       = PoolQuery (alter_sql injected_name) []"
    by (simp only: list.sel)
  from c1 c2 c3 c4 show ?thesis by blast
qed

section \<open>Validation of the credentials\<close>

lemma run_checks_missing:
  "falsy (projectUrl b) \<or> falsy (serviceKey b) \<Longrightarrow>
     fst (run_checks w b)
       = Reply 400 (ErrorBody ''Supabase Project URL and Service Key are required.'')
     \<and> filter is_outbound (snd (run_checks w b)) = []"
  by (auto simp: run_checks_def logEvidence_def)

lemma fix_rls_missing:
  "falsy (projectUrl b) \<or> falsy (serviceKey b) \<Longrightarrow>
     fst (fix_rls query db b)
       = Reply 400 (ErrorBody (if falsy (tableName b) then ''Table Name is required.''
                               else ''Project URL and Service Key are required.''))
     \<and> filter is_outbound (fst (snd (fix_rls query db b))) = []
     \<and> snd (snd (fix_rls query db b)) = db"
  by (auto simp: fix_rls_def logEvidence_def)

lemma ai_assist_missing:
  "falsy (projectUrl b) \<or> falsy (serviceKey b) \<Longrightarrow>
     fst (ai_assist w b)
       = Reply 400 (ErrorBody ''Project URL, Service Key, and Issue description are required.'')
     \<and> filter is_outbound (snd (ai_assist w b)) = []"
  by (auto simp: ai_assist_def logEvidence_def)

lemma fix_mfa_missing:
  "falsy (projectUrl b) \<or> falsy (serviceKey b) \<Longrightarrow> projectUrl b \<noteq> None \<Longrightarrow>
     fst (fix_mfa w b)
       = Reply 400 (ErrorBody ''Project URL, Service Key, and User ID are required.'')
     \<and> filter is_outbound (snd (fix_mfa w b)) = []"
  by (auto simp: fix_mfa_def logEvidence_def)

lemma fix_pitr_missing:
  "falsy (projectUrl b) \<or> falsy (serviceKey b) \<Longrightarrow> projectUrl b \<noteq> None \<Longrightarrow>
     fst (fix_pitr w b)
       = Reply 400 (ErrorBody ''Project URL, Service Key, and Project Ref are required.'')
     \<and> filter is_outbound (snd (fix_pitr w b)) = []"
  by (auto simp: fix_pitr_def logEvidence_def)

lemma fix_mfa_missing_user:
  "projectUrl b \<noteq> None \<Longrightarrow> falsy (userId b) \<Longrightarrow>
     fst (fix_mfa w b)
       = Reply 400 (ErrorBody ''Project URL, Service Key, and User ID are required.'')
     \<and> filter is_outbound (snd (fix_mfa w b)) = []"
  by (auto simp: fix_mfa_def logEvidence_def)

lemma getSupabaseClient_no_scheme:
  "\<not> falsy url \<Longrightarrow> \<not> falsy key \<Longrightarrow> no_scheme (the url) \<Longrightarrow>
     getSupabaseClient w url key = (Inl (new_Error invalid_url_message), [])"
  by (simp add: getSupabaseClient_def no_scheme_def invalid_url_message_def)

lemma run_checks_no_scheme:
  assumes "\<not> falsy (projectUrl b)" "\<not> falsy (serviceKey b)" "no_scheme (the (projectUrl b))"
  shows "fst (run_checks w b)
           = Reply 500 (ErrorBody (''Failed to connect to Supabase or run checks: '' @
                                   invalid_url_message))
       \<and> filter is_outbound (snd (run_checks w b)) = []"
proof -
  have "getSupabaseClient w (Some (the (projectUrl b))) (Some (the (serviceKey b)))
          = (Inl (new_Error invalid_url_message), [])"
    using assms by (intro getSupabaseClient_no_scheme) (auto simp: falsy_def split: option.splits)
  then show ?thesis
    using assms(1,2) by (simp add: run_checks_def Let_def logEvidence_def new_Error_def)
qed

lemma fix_mfa_no_scheme:
  assumes "\<not> falsy (projectUrl b)" "\<not> falsy (serviceKey b)" "no_scheme (the (projectUrl b))"
      and "\<not> falsy (userId b)"
  shows "fst (fix_mfa w b)
           = Reply 500 (ErrorBody (''Failed to enable MFA for user '' @ the (userId b) @ '': '' @
                                   invalid_url_message))
       \<and> filter is_outbound (snd (fix_mfa w b)) = []"
proof -
  from assms(1) obtain u where u: "projectUrl b = Some u" by (cases "projectUrl b") (auto simp: falsy_def)
  show ?thesis
    using assms u getSupabaseClient_no_scheme[OF assms(1,2,3), of w]
    by (simp add: fix_mfa_def Let_def fix_mfa_catch_def new_Error_def)
qed

text \<open>The handlers that do not look at the form of the endpoint: their reply and their
  outbound calls are the same for any two non-empty project URLs.\<close>

lemmas push_fst = sum.case_distrib[of fst] if_distrib[of fst] option.case_distrib[of fst]
  prod.case_distrib[of fst]
lemmas push_snd = sum.case_distrib[of snd] if_distrib[of snd] option.case_distrib[of snd]
  prod.case_distrib[of snd]
lemmas push_out = sum.case_distrib[of "filter is_outbound"] if_distrib[of "filter is_outbound"]
  option.case_distrib[of "filter is_outbound"] prod.case_distrib[of "filter is_outbound"]

lemma ai_assist_ignores_scheme:
  "u \<noteq> [] \<Longrightarrow> u' \<noteq> [] \<Longrightarrow>
     fst (ai_assist w (b\<lparr>projectUrl := Some u\<rparr>)) = fst (ai_assist w (b\<lparr>projectUrl := Some u'\<rparr>))
     \<and> filter is_outbound (snd (ai_assist w (b\<lparr>projectUrl := Some u\<rparr>)))
       = filter is_outbound (snd (ai_assist w (b\<lparr>projectUrl := Some u'\<rparr>)))"
  by (simp add: ai_assist_def Let_def falsy_def logEvidence_def push_fst push_snd push_out
        cong: sum.case_cong option.case_cong if_cong)

lemma fix_pitr_ignores_scheme:
  "u \<noteq> [] \<Longrightarrow> u' \<noteq> [] \<Longrightarrow>
     fst (fix_pitr w (b\<lparr>projectUrl := Some u\<rparr>)) = fst (fix_pitr w (b\<lparr>projectUrl := Some u'\<rparr>))
     \<and> filter is_outbound (snd (fix_pitr w (b\<lparr>projectUrl := Some u\<rparr>)))
       = filter is_outbound (snd (fix_pitr w (b\<lparr>projectUrl := Some u'\<rparr>)))"
  by (simp add: fix_pitr_def Let_def split_beta falsy_def fix_pitr_catch_def logEvidence_def
        push_fst push_snd push_out
        cong: sum.case_cong option.case_cong if_cong)

lemma fix_rls_ignores_scheme:
  "u \<noteq> [] \<Longrightarrow> u' \<noteq> [] \<Longrightarrow>
     fst (fix_rls query db (b\<lparr>projectUrl := Some u\<rparr>))
       = fst (fix_rls query db (b\<lparr>projectUrl := Some u'\<rparr>))
     \<and> filter is_outbound (fst (snd (fix_rls query db (b\<lparr>projectUrl := Some u\<rparr>))))
       = filter is_outbound (fst (snd (fix_rls query db (b\<lparr>projectUrl := Some u'\<rparr>))))
     \<and> snd (snd (fix_rls query db (b\<lparr>projectUrl := Some u\<rparr>)))
       = snd (snd (fix_rls query db (b\<lparr>projectUrl := Some u'\<rparr>)))"
  by (simp add: fix_rls_def Let_def split_beta falsy_def fix_rls_done_def fix_rls_catch_def
        logEvidence_def push_fst push_snd push_out
        cong: sum.case_cong option.case_cong if_cong)

text \<open>
  Claim C4, as amended. When the project URL or the service key is absent or empty,
  run-checks, fix-rls and ai-assist reply with status 400 and a message, without any
  outbound call (fix-rls does not touch the store), and fix-mfa and fix-pitr do so when
  the project URL is present. When both are present and the project URL starts with
  neither "http://" nor "https://", run-checks replies with status 500 carrying the
  message of the validation, and fix-mfa does so when a user id is given and replies with
  status 400 for the missing user id otherwise, all without any outbound call. The
  replies and the outbound calls of fix-rls, fix-pitr and ai-assist are the same for any
  two non-empty project URLs: these three do not inspect the scheme.
\<close>

theorem credential_validation:
  "(falsy (projectUrl b) \<or> falsy (serviceKey b) \<longrightarrow>
      fst (run_checks w b)
        = Reply 400 (ErrorBody ''Supabase Project URL and Service Key are required.'')
      \<and> filter is_outbound (snd (run_checks w b)) = []
      \<and> fst (fix_rls query db b)
          = Reply 400 (ErrorBody (if falsy (tableName b) then ''Table Name is required.''
                                  else ''Project URL and Service Key are required.''))
      \<and> filter is_outbound (fst (snd (fix_rls query db b))) = []
      \<and> snd (snd (fix_rls query db b)) = db
      \<and> fst (ai_assist w b)
          = Reply 400 (ErrorBody ''Project URL, Service Key, and Issue description are required.'')
      \<and> filter is_outbound (snd (ai_assist w b)) = []
      \<and> (projectUrl b \<noteq> None \<longrightarrow>
            fst (fix_mfa w b)
              = Reply 400 (ErrorBody ''Project URL, Service Key, and User ID are required.'')
            \<and> filter is_outbound (snd (fix_mfa w b)) = []
            \<and> fst (fix_pitr w b)
                = Reply 400 (ErrorBody ''Project URL, Service Key, and Project Ref are required.'')
            \<and> filter is_outbound (snd (fix_pitr w b)) = []))
   \<and> (\<not> falsy (projectUrl b) \<and> \<not> falsy (serviceKey b) \<and> no_scheme (the (projectUrl b)) \<longrightarrow>
        fst (run_checks w b)
          = Reply 500 (ErrorBody (''Failed to connect to Supabase or run checks: '' @
                                  invalid_url_message))
        \<and> filter is_outbound (snd (run_checks w b)) = []
        \<and> (\<not> falsy (userId b) \<longrightarrow>
              fst (fix_mfa w b)
                = Reply 500 (ErrorBody (''Failed to enable MFA for user '' @ the (userId b) @
                                        '': '' @ invalid_url_message))
              \<and> filter is_outbound (snd (fix_mfa w b)) = [])
        \<and> (falsy (userId b) \<longrightarrow>
              fst (fix_mfa w b)
                = Reply 400 (ErrorBody ''Project URL, Service Key, and User ID are required.'')
              \<and> filter is_outbound (snd (fix_mfa w b)) = []))
   \<and> (\<forall>u u'. u \<noteq> [] \<and> u' \<noteq> [] \<longrightarrow>
        fst (fix_rls query db (b\<lparr>projectUrl := Some u\<rparr>))
          = fst (fix_rls query db (b\<lparr>projectUrl := Some u'\<rparr>))
        \<and> filter is_outbound (fst (snd (fix_rls query db (b\<lparr>projectUrl := Some u\<rparr>))))
          = filter is_outbound (fst (snd (fix_rls query db (b\<lparr>projectUrl := Some u'\<rparr>))))
        \<and> fst (fix_pitr w (b\<lparr>projectUrl := Some u\<rparr>))
          = fst (fix_pitr w (b\<lparr>projectUrl := Some u'\<rparr>))
        \<and> filter is_outbound (snd (fix_pitr w (b\<lparr>projectUrl := Some u\<rparr>)))
          = filter is_outbound (snd (fix_pitr w (b\<lparr>projectUrl := Some u'\<rparr>)))
        \<and> fst (ai_assist w (b\<lparr>projectUrl := Some u\<rparr>))
          = fst (ai_assist w (b\<lparr>projectUrl := Some u'\<rparr>))
        \<and> filter is_outbound (snd (ai_assist w (b\<lparr>projectUrl := Some u\<rparr>)))
          = filter is_outbound (snd (ai_assist w (b\<lparr>projectUrl := Some u'\<rparr>))))"
proof -
  have A: "falsy (projectUrl b) \<or> falsy (serviceKey b) \<longrightarrow>
      fst (run_checks w b)
        = Reply 400 (ErrorBody ''Supabase Project URL and Service Key are required.'')
      \<and> filter is_outbound (snd (run_checks w b)) = []
      \<and> fst (fix_rls query db b)
          = Reply 400 (ErrorBody (if falsy (tableName b) then ''Table Name is required.''
                                  else ''Project URL and Service Key are required.''))
      \<and> filter is_outbound (fst (snd (fix_rls query db b))) = []
      \<and> snd (snd (fix_rls query db b)) = db
      \<and> fst (ai_assist w b)
          = Reply 400 (ErrorBody ''Project URL, Service Key, and Issue description are required.'')
      \<and> filter is_outbound (snd (ai_assist w b)) = []
      \<and> (projectUrl b \<noteq> None \<longrightarrow>
            fst (fix_mfa w b)
              = Reply 400 (ErrorBody ''Project URL, Service Key, and User ID are required.'')
            \<and> filter is_outbound (snd (fix_mfa w b)) = []
            \<and> fst (fix_pitr w b)
                = Reply 400 (ErrorBody ''Project URL, Service Key, and Project Ref are required.'')
            \<and> filter is_outbound (snd (fix_pitr w b)) = [])"
  proof
    assume h: "falsy (projectUrl b) \<or> falsy (serviceKey b)"
    have m: "projectUrl b \<noteq> None \<longrightarrow>
            fst (fix_mfa w b)
              = Reply 400 (ErrorBody ''Project URL, Service Key, and User ID are required.'')
            \<and> filter is_outbound (snd (fix_mfa w b)) = []
            \<and> fst (fix_pitr w b)
                = Reply 400 (ErrorBody ''Project URL, Service Key, and Project Ref are required.'')
            \<and> filter is_outbound (snd (fix_pitr w b)) = []"
    proof
      assume p: "projectUrl b \<noteq> None"
      from fix_mfa_missing[OF h p, of w] fix_pitr_missing[OF h p, of w]
      show "fst (fix_mfa w b)
              = Reply 400 (ErrorBody ''Project URL, Service Key, and User ID are required.'')
            \<and> filter is_outbound (snd (fix_mfa w b)) = []
            \<and> fst (fix_pitr w b)
                = Reply 400 (ErrorBody ''Project URL, Service Key, and Project Ref are required.'')
            \<and> filter is_outbound (snd (fix_pitr w b)) = []"
        by (elim conjE) (intro conjI; assumption)
    qed
    from run_checks_missing[OF h, of w] fix_rls_missing[OF h, of query db]
         ai_assist_missing[OF h, of w] m
    show "fst (run_checks w b)
        = Reply 400 (ErrorBody ''Supabase Project URL and Service Key are required.'')
      \<and> filter is_outbound (snd (run_checks w b)) = []
      \<and> fst (fix_rls query db b)
          = Reply 400 (ErrorBody (if falsy (tableName b) then ''Table Name is required.''
                                  else ''Project URL and Service Key are required.''))
      \<and> filter is_outbound (fst (snd (fix_rls query db b))) = []
      \<and> snd (snd (fix_rls query db b)) = db
      \<and> fst (ai_assist w b)
          = Reply 400 (ErrorBody ''Project URL, Service Key, and Issue description are required.'')
      \<and> filter is_outbound (snd (ai_assist w b)) = []
      \<and> (projectUrl b \<noteq> None \<longrightarrow>
            fst (fix_mfa w b)
              = Reply 400 (ErrorBody ''Project URL, Service Key, and User ID are required.'')
            \<and> filter is_outbound (snd (fix_mfa w b)) = []
            \<and> fst (fix_pitr w b)
                = Reply 400 (ErrorBody ''Project URL, Service Key, and Project Ref are required.'')
            \<and> filter is_outbound (snd (fix_pitr w b)) = [])"
      by (elim conjE) (intro conjI; assumption)
  qed
  have B: "\<not> falsy (projectUrl b) \<and> \<not> falsy (serviceKey b) \<and> no_scheme (the (projectUrl b)) \<longrightarrow>
        fst (run_checks w b)
          = Reply 500 (ErrorBody (''Failed to connect to Supabase or run checks: '' @
                                  invalid_url_message))
        \<and> filter is_outbound (snd (run_checks w b)) = []
        \<and> (\<not> falsy (userId b) \<longrightarrow>
              fst (fix_mfa w b)
                = Reply 500 (ErrorBody (''Failed to enable MFA for user '' @ the (userId b) @
                                        '': '' @ invalid_url_message))
              \<and> filter is_outbound (snd (fix_mfa w b)) = [])
        \<and> (falsy (userId b) \<longrightarrow>
              fst (fix_mfa w b)
                = Reply 400 (ErrorBody ''Project URL, Service Key, and User ID are required.'')
              \<and> filter is_outbound (snd (fix_mfa w b)) = [])"
  proof
    assume h: "\<not> falsy (projectUrl b) \<and> \<not> falsy (serviceKey b) \<and> no_scheme (the (projectUrl b))"
    then have h1: "\<not> falsy (projectUrl b)" and h2: "\<not> falsy (serviceKey b)"
      and h3: "no_scheme (the (projectUrl b))"
      by simp_all
    have m: "\<not> falsy (userId b) \<longrightarrow>
              fst (fix_mfa w b)
                = Reply 500 (ErrorBody (''Failed to enable MFA for user '' @ the (userId b) @
                                        '': '' @ invalid_url_message))
              \<and> filter is_outbound (snd (fix_mfa w b)) = []"
      by (rule impI) (rule fix_mfa_no_scheme[OF h1 h2 h3])
    from h1 have present: "projectUrl b \<noteq> None"
      by (cases "projectUrl b") (simp_all add: falsy_def)
    have m': "falsy (userId b) \<longrightarrow>
              fst (fix_mfa w b)
                = Reply 400 (ErrorBody ''Project URL, Service Key, and User ID are required.'')
              \<and> filter is_outbound (snd (fix_mfa w b)) = []"
      by (rule impI) (rule fix_mfa_missing_user[OF present])
    from run_checks_no_scheme[OF h1 h2 h3, of w] m m'
    show "fst (run_checks w b)
          = Reply 500 (ErrorBody (''Failed to connect to Supabase or run checks: '' @
                                  invalid_url_message))
        \<and> filter is_outbound (snd (run_checks w b)) = []
        \<and> (\<not> falsy (userId b) \<longrightarrow>
              fst (fix_mfa w b)
                = Reply 500 (ErrorBody (''Failed to enable MFA for user '' @ the (userId b) @
                                        '': '' @ invalid_url_message))
              \<and> filter is_outbound (snd (fix_mfa w b)) = [])
        \<and> (falsy (userId b) \<longrightarrow>
              fst (fix_mfa w b)
                = Reply 400 (ErrorBody ''Project URL, Service Key, and User ID are required.'')
              \<and> filter is_outbound (snd (fix_mfa w b)) = [])"
      by (elim conjE) (intro conjI; assumption)
  qed
  have C: "\<forall>u u'. u \<noteq> [] \<and> u' \<noteq> [] \<longrightarrow>
        fst (fix_rls query db (b\<lparr>projectUrl := Some u\<rparr>))
          = fst (fix_rls query db (b\<lparr>projectUrl := Some u'\<rparr>))
        \<and> filter is_outbound (fst (snd (fix_rls query db (b\<lparr>projectUrl := Some u\<rparr>))))
          = filter is_outbound (fst (snd (fix_rls query db (b\<lparr>projectUrl := Some u'\<rparr>))))
        \<and> fst (fix_pitr w (b\<lparr>projectUrl := Some u\<rparr>))
          = fst (fix_pitr w (b\<lparr>projectUrl := Some u'\<rparr>))
        \<and> filter is_outbound (snd (fix_pitr w (b\<lparr>projectUrl := Some u\<rparr>)))
          = filter is_outbound (snd (fix_pitr w (b\<lparr>projectUrl := Some u'\<rparr>)))
        \<and> fst (ai_assist w (b\<lparr>projectUrl := Some u\<rparr>))
          = fst (ai_assist w (b\<lparr>projectUrl := Some u'\<rparr>))
        \<and> filter is_outbound (snd (ai_assist w (b\<lparr>projectUrl := Some u\<rparr>)))
          = filter is_outbound (snd (ai_assist w (b\<lparr>projectUrl := Some u'\<rparr>)))"
  proof (intro allI impI)
    fix u u' :: string
    assume "u \<noteq> [] \<and> u' \<noteq> []"
    then have u: "u \<noteq> []" and u': "u' \<noteq> []" by simp_all
    from fix_rls_ignores_scheme[OF u u', of query db b] fix_pitr_ignores_scheme[OF u u', of w b]
         ai_assist_ignores_scheme[OF u u', of w b]
    show "fst (fix_rls query db (b\<lparr>projectUrl := Some u\<rparr>))
          = fst (fix_rls query db (b\<lparr>projectUrl := Some u'\<rparr>))
        \<and> filter is_outbound (fst (snd (fix_rls query db (b\<lparr>projectUrl := Some u\<rparr>))))
          = filter is_outbound (fst (snd (fix_rls query db (b\<lparr>projectUrl := Some u'\<rparr>))))
        \<and> fst (fix_pitr w (b\<lparr>projectUrl := Some u\<rparr>))
          = fst (fix_pitr w (b\<lparr>projectUrl := Some u'\<rparr>))
        \<and> filter is_outbound (snd (fix_pitr w (b\<lparr>projectUrl := Some u\<rparr>)))
          = filter is_outbound (snd (fix_pitr w (b\<lparr>projectUrl := Some u'\<rparr>)))
        \<and> fst (ai_assist w (b\<lparr>projectUrl := Some u\<rparr>))
          = fst (ai_assist w (b\<lparr>projectUrl := Some u'\<rparr>))
        \<and> filter is_outbound (snd (ai_assist w (b\<lparr>projectUrl := Some u\<rparr>)))
          = filter is_outbound (snd (ai_assist w (b\<lparr>projectUrl := Some u'\<rparr>)))"
      by (elim conjE) (intro conjI; assumption)
  qed
  show ?thesis
    by (rule conjI[OF A conjI[OF B C]])
qed

theorem credential_validation_witness:
  "fst (run_checks world_ok request_no_key)
     = Reply 400 (ErrorBody ''Supabase Project URL and Service Key are required.'')
   \<and> fst (fix_pitr world_ok request_no_key)
       = Reply 400 (ErrorBody ''Project URL, Service Key, and Project Ref are required.'')
   \<and> filter is_outbound (fst (snd (fix_rls store_query store_shop request_no_key))) = []
   \<and> fst (fix_mfa world_ok request_no_scheme)
       = Reply 500 (ErrorBody (''Failed to enable MFA for user '' @ the (userId request_no_scheme) @
                               '': '' @ invalid_url_message))
   \<and> fst (fix_mfa world_ok request_no_user)
       = Reply 400 (ErrorBody ''Project URL, Service Key, and User ID are required.'')
   \<and> fst (ai_assist world_ok request_no_scheme) = fst (ai_assist world_ok request_ok)"
proof -
  have k: "falsy (projectUrl request_no_key) \<or> falsy (serviceKey request_no_key)"
          "projectUrl request_no_key \<noteq> None"
    by (simp_all add: request_no_key_def request_ok_def falsy_def)
  have s: "\<not> falsy (projectUrl request_no_scheme) \<and> \<not> falsy (serviceKey request_no_scheme)
           \<and> no_scheme (the (projectUrl request_no_scheme))"
          "\<not> falsy (userId request_no_scheme)"
    by (simp_all add: request_no_scheme_def request_ok_def falsy_def no_scheme_def startsWith_def)
  have n: "\<not> falsy (projectUrl request_no_user) \<and> \<not> falsy (serviceKey request_no_user)
           \<and> no_scheme (the (projectUrl request_no_user))"
          "falsy (userId request_no_user)"
    by (simp_all add: request_no_user_def request_no_scheme_def request_ok_def falsy_def
          no_scheme_def startsWith_def)
  have u: "''abcdefgh.supabase.co'' \<noteq> [] \<and> ''https://abcdefgh.supabase.co'' \<noteq> []"
    by simp
  have r: "request_ok\<lparr>projectUrl := Some ''abcdefgh.supabase.co''\<rparr> = request_no_scheme"
          "request_ok\<lparr>projectUrl := Some ''https://abcdefgh.supabase.co''\<rparr> = request_ok"
    by (simp_all add: request_no_scheme_def request_ok_def)
  note K = credential_validation[of request_no_key world_ok store_query store_shop,
             THEN conjunct1, rule_format, OF k(1)]
  note S = credential_validation[of request_no_scheme world_ok store_query store_shop,
             THEN conjunct2, THEN conjunct1, rule_format, OF s(1)]
  note N = credential_validation[of request_no_user world_ok store_query store_shop,
             THEN conjunct2, THEN conjunct1, rule_format, OF n(1)]
  note U = credential_validation[of request_ok world_ok store_query store_shop,
             THEN conjunct2, THEN conjunct2, rule_format, OF u]
  from K k(2) have 1: "fst (run_checks world_ok request_no_key)
     = Reply 400 (ErrorBody ''Supabase Project URL and Service Key are required.'')"
    by - (elim conjE impE; assumption)
  from K k(2) have 2: "fst (fix_pitr world_ok request_no_key)
       = Reply 400 (ErrorBody ''Project URL, Service Key, and Project Ref are required.'')"
    by - (elim conjE impE; assumption)
  from K k(2) have 3: "filter is_outbound (fst (snd (fix_rls store_query store_shop request_no_key))) = []"
    by - (elim conjE impE; assumption)
  from S s(2) have 4: "fst (fix_mfa world_ok request_no_scheme)
       = Reply 500 (ErrorBody (''Failed to enable MFA for user '' @ the (userId request_no_scheme) @
                               '': '' @ invalid_url_message))"
    by blast
  from N n(2) have 6: "fst (fix_mfa world_ok request_no_user)
       = Reply 400 (ErrorBody ''Project URL, Service Key, and User ID are required.'')"
    by blast
  from U have 5: "fst (ai_assist world_ok request_no_scheme) = fst (ai_assist world_ok request_ok)"
    unfolding r by - (elim conjE; assumption)
  from 1 2 3 4 6 5 show ?thesis by - (intro conjI; assumption)
qed


text \<open>
  Claim C4, as stated, fails for an endpoint without scheme: run-checks replies with status
  500 rather than 400, ai-assist answers with status 200 after calling the language
  model, and fix-rls sends its statements to the data store.
\<close>

theorem invalid_credentials_counterexample:
  "\<not> falsy (projectUrl request_no_scheme) \<and> \<not> falsy (serviceKey request_no_scheme)
   \<and> \<not> startsWith (the (projectUrl request_no_scheme)) ''http://''
   \<and> \<not> startsWith (the (projectUrl request_no_scheme)) ''https://''
   \<and> fst (run_checks world_ok request_no_scheme) =
        Reply 500 (ErrorBody
          ''Failed to connect to Supabase or run checks: Invalid Supabase project URL format. It should start with http:// or https://'')
   \<and> fst (ai_assist world_ok request_no_scheme) = Reply 200 (AiBody ''Enable RLS on every table.'')
   \<and> filter is_outbound (fst (snd (fix_rls store_query store_shop request_no_scheme))) =
        [PoolQuery (alter_sql ''orders'') [], PoolQuery sql_policies [''orders'']]"
  by code_simp

end
